theory Spec2Isabelle
  imports Complex_Main "HOL-Library.Sublist" "HOL-Library.Multiset" "HOL-Library.Product_Lexorder"
begin

section \<open>Python values, exceptions and the library functions the script calls\<close>

text \<open>
  The script \<^verbatim>\<open>llm_function_stock_price_demo.py\<close> works on decoded JSON: the value
  of \<^verbatim>\<open>response.json()\<close> and of \<^verbatim>\<open>json.loads\<close>. A decoded object is a Python
  dict, modelled by the list of its items in insertion order and read with \<open>map_of\<close>
  (the keys of a dict are distinct). Characters of a \<open>string\<close> stand for the code
  points below 256. The check of the two API keys at start-up is not part of the model:
  the environment holds the key.
\<close>

subsection \<open>Floats\<close>

text \<open>
  A Python float is NaN, an infinity, the negative zero or a finite number, given by
  its value (every finite double is a rational). How text and large integers are
  rounded to floats, and how a finite float is printed, is left to the environment.
\<close>

datatype pyfloat = NaN | NegInf | PosInf | NegZero | Finite rat

text \<open>The place of a float that is not NaN in the order of the floats: the two zeros
  have the same place.\<close>

fun float_rank :: "pyfloat \<Rightarrow> int \<times> rat" where
  "float_rank NegInf = (- 1, 0)"
| "float_rank PosInf = (1, 0)"
| "float_rank NegZero = (0, 0)"
| "float_rank (Finite r) = (0, r)"
| "float_rank NaN = (0, 0)"

text \<open>\<^verbatim>\<open>a < b\<close> and \<^verbatim>\<open>a == b\<close> on floats: both are false when one side is NaN.\<close>

definition float_lt :: "pyfloat \<Rightarrow> pyfloat \<Rightarrow> bool" where
  "float_lt a b = (a \<noteq> NaN \<and> b \<noteq> NaN \<and> float_rank a < float_rank b)"

definition float_eq :: "pyfloat \<Rightarrow> pyfloat \<Rightarrow> bool" where
  "float_eq a b = (a \<noteq> NaN \<and> b \<noteq> NaN \<and> float_rank a = float_rank b)"

subsection \<open>Decoded JSON and exceptions\<close>

datatype json =
    JNull
  | JBool bool
  | JInt int
  | JFloat pyfloat
  | JStr string
  | JArr "json list"
  | JObj "(string \<times> json) list"

text \<open>The exceptions that the modelled code can raise. \<open>TransportError\<close> stands for
  whatever a remote call raises (connection failure, undecodable body).\<close>

datatype error =
    KeyError
  | IndexError
  | TypeError
  | AttributeError
  | ValueError
  | OverflowError
  | JSONDecodeError
  | EOFError
  | TransportError

text \<open>A call that acts on the outside world \<open>'w\<close>: it returns a value or raises, and
  leaves the world changed.\<close>

type_synonym ('a, 'w) io = "'w \<Rightarrow> (error + 'a) \<times> 'w"

subsection \<open>Conversation data\<close>

text \<open>A tool call as the dispatcher reads it: \<^verbatim>\<open>tool_call.id\<close>,
  \<^verbatim>\<open>tool_call.function.name\<close> and \<^verbatim>\<open>tool_call.function.arguments\<close>.\<close>

record tool_call =
  tc_id :: string
  fn_name :: string
  fn_arguments :: string

datatype role = System | User | Assistant | Tool

text \<open>A message is a dict with the keys \<^verbatim>\<open>role\<close> and \<^verbatim>\<open>content\<close> and, depending on
  who built it, \<^verbatim>\<open>tool_calls\<close> or \<^verbatim>\<open>tool_call_id\<close>; \<open>None\<close> is an absent key.\<close>

record message =
  role :: role
  content :: string
  tool_calls :: "tool_call list option"
  tool_call_id :: "string option"

text \<open>One streamed chunk: \<^verbatim>\<open>chunk.choices\<close> is a list, each choice has a
  \<^verbatim>\<open>delta\<close> whose \<^verbatim>\<open>content\<close> and \<^verbatim>\<open>tool_calls\<close> may be missing or \<^verbatim>\<open>None\<close>
  (both \<open>None\<close> here).\<close>

record delta =
  delta_content :: "string option"
  delta_tool_calls :: "tool_call list option"

record chunk =
  choices :: "delta list"

text \<open>The keyword arguments of \<^verbatim>\<open>client.chat.completions.create\<close>.\<close>

record chat_request =
  req_model :: string
  req_messages :: "message list"
  req_tools :: "json list"
  req_tool_choice :: string
  req_max_completion_tokens :: nat
  req_stream :: bool

subsection \<open>The environment of the script\<close>

text \<open>
  What the script takes from outside: the API key read at start-up, the float that a
  text stands for (\<^verbatim>\<open>float(s)\<close> raises ValueError on \<open>None\<close>), the float nearest to
  an integer beyond \<open>2 ^ 53\<close> (\<^verbatim>\<open>float(i)\<close> raises OverflowError on \<open>None\<close>), the
  \<^verbatim>\<open>repr\<close> of a finite float, \<^verbatim>\<open>str\<close> of a value that is not a string,
  \<^verbatim>\<open>json.loads\<close> (\<open>None\<close>: JSONDecodeError), and the three remote or
  interactive calls: \<^verbatim>\<open>requests.get(url).json()\<close>, the streamed chat completion (the
  chunks the stream yields) and \<^verbatim>\<open>input(prompt)\<close>.
\<close>

record 'w env =
  alphavantage_api_key :: string
  float_of_str :: "string \<Rightarrow> pyfloat option"
  float_of_int :: "int \<Rightarrow> pyfloat option"
  float_repr :: "rat \<Rightarrow> string"
  str_of_value :: "json \<Rightarrow> string"
  json_loads :: "string \<Rightarrow> json option"
  requests_get_json :: "string \<Rightarrow> (json, 'w) io"
  chat_completions_create :: "chat_request \<Rightarrow> (chunk list, 'w) io"
  input_py :: "string \<Rightarrow> (string, 'w) io"

subsection \<open>\<^verbatim>\<open>float\<close>, \<^verbatim>\<open>in\<close>, subscripts and \<^verbatim>\<open>dict.get\<close>\<close>

text \<open>\<^verbatim>\<open>float(v)\<close>: an integer up to \<open>2 ^ 53\<close> in absolute value is a float; a
  bool is an int; \<^verbatim>\<open>None\<close>, lists and dicts raise TypeError.\<close>

fun py_float :: "'w env \<Rightarrow> json \<Rightarrow> error + pyfloat" where
  "py_float E (JFloat f) = Inr f"
| "py_float E (JStr s) = (case float_of_str E s of None \<Rightarrow> Inl ValueError | Some f \<Rightarrow> Inr f)"
| "py_float E (JInt i) =
     (if \<bar>i\<bar> \<le> 2 ^ 53 then Inr (Finite (of_int i))
      else (case float_of_int E i of None \<Rightarrow> Inl OverflowError | Some f \<Rightarrow> Inr f))"
| "py_float E (JBool b) = Inr (Finite (if b then 1 else 0))"
| "py_float E JNull = Inl TypeError"
| "py_float E (JArr xs) = Inl TypeError"
| "py_float E (JObj kvs) = Inl TypeError"

text \<open>\<^verbatim>\<open>key in data\<close> for a string key: a key of a dict, an element of a list, a
  substring of a string; the other values are not containers.\<close>

fun py_contains :: "string \<Rightarrow> json \<Rightarrow> error + bool" where
  "py_contains k (JObj kvs) = Inr (map_of kvs k \<noteq> None)"
| "py_contains k (JArr xs) = Inr (JStr k \<in> set xs)"
| "py_contains k (JStr s) = Inr (sublist k s)"
| "py_contains k v = Inl TypeError"

text \<open>\<^verbatim>\<open>data[key]\<close> for a string key: only a dict accepts it.\<close>

fun py_getitem :: "json \<Rightarrow> string \<Rightarrow> error + json" where
  "py_getitem (JObj kvs) k = (case map_of kvs k of None \<Rightarrow> Inl KeyError | Some v \<Rightarrow> Inr v)"
| "py_getitem v k = Inl TypeError"

text \<open>\<^verbatim>\<open>x.get(key, default)\<close>: only a dict has the method.\<close>

fun py_get :: "json \<Rightarrow> string \<Rightarrow> json \<Rightarrow> error + json" where
  "py_get (JObj kvs) k d = (case map_of kvs k of None \<Rightarrow> Inr d | Some v \<Rightarrow> Inr v)"
| "py_get v k d = Inl AttributeError"

subsection \<open>\<^verbatim>\<open>json.dumps\<close> with its default settings\<close>

definition hex_digit :: "nat \<Rightarrow> char" where
  "hex_digit n = ''0123456789abcdef'' ! (n mod 16)"

text \<open>One character inside a JSON string, \<^verbatim>\<open>ensure_ascii=True\<close>: the quote, the
  backslash and the control characters with a short form are escaped by a backslash,
  every other character outside the printable ASCII range as \<^verbatim>\<open>\u00XX\<close>.\<close>

definition escape_char :: "char \<Rightarrow> string" where
  "escape_char c =
     (let n = (of_char c :: nat) in
      if n = 34 then [CHR 0x5C, CHR 0x22]
      else if n = 92 then [CHR 0x5C, CHR 0x5C]
      else if n = 10 then [CHR 0x5C, CHR ''n'']
      else if n = 13 then [CHR 0x5C, CHR ''r'']
      else if n = 9 then [CHR 0x5C, CHR ''t'']
      else if n = 8 then [CHR 0x5C, CHR ''b'']
      else if n = 12 then [CHR 0x5C, CHR ''f'']
      else if n < 32 \<or> 126 < n then
        [CHR 0x5C, CHR ''u'', CHR ''0'', CHR ''0'', hex_digit (n div 16), hex_digit n]
      else [c])"

definition encode_basestring_ascii :: "string \<Rightarrow> string" where
  "encode_basestring_ascii s = [CHR 0x22] @ concat (map escape_char s) @ [CHR 0x22]"

fun str_nat :: "nat \<Rightarrow> string" where
  "str_nat n =
     (if n < 10 then [''0123456789'' ! n]
      else str_nat (n div 10) @ [''0123456789'' ! (n mod 10)])"

declare str_nat.simps [simp del]

definition str_int :: "int \<Rightarrow> string" where
  "str_int i = (if i < 0 then ''-'' @ str_nat (nat (- i)) else str_nat (nat i))"

text \<open>\<^verbatim>\<open>', '.join(parts)\<close>.\<close>

fun join :: "string \<Rightarrow> string list \<Rightarrow> string" where
  "join sep [] = []"
| "join sep [x] = x"
| "join sep (x # y # ys) = x @ sep @ join sep (y # ys)"

text \<open>A float in the output of \<^verbatim>\<open>json.dumps\<close>.\<close>

fun float_text :: "(rat \<Rightarrow> string) \<Rightarrow> pyfloat \<Rightarrow> string" where
  "float_text fr NaN = ''NaN''"
| "float_text fr PosInf = ''Infinity''"
| "float_text fr NegInf = ''-Infinity''"
| "float_text fr NegZero = ''-0.0''"
| "float_text fr (Finite r) = fr r"

fun json_dumps :: "(rat \<Rightarrow> string) \<Rightarrow> json \<Rightarrow> string" where
  "json_dumps fr JNull = ''null''"
| "json_dumps fr (JBool b) = (if b then ''true'' else ''false'')"
| "json_dumps fr (JInt i) = str_int i"
| "json_dumps fr (JFloat f) = float_text fr f"
| "json_dumps fr (JStr s) = encode_basestring_ascii s"
| "json_dumps fr (JArr xs) = ''['' @ join '', '' (map (json_dumps fr) xs) @ '']''"
| "json_dumps fr (JObj kvs) =
     ''{'' @ join '', '' (map (\<lambda>kv. encode_basestring_ascii (fst kv) @ '': '' @ json_dumps fr (snd kv)) kvs)
       @ ''}''"


subsection \<open>Raising inside a sequence of steps\<close>

definition bind_err :: "error + 'a \<Rightarrow> ('a \<Rightarrow> error + 'b) \<Rightarrow> error + 'b" where
  "bind_err m f = (case m of Inl e \<Rightarrow> Inl e | Inr a \<Rightarrow> f a)"

text \<open>Applying a function that may raise to the elements of a list, from left to
  right: the first exception ends the traversal. This is a list comprehension, and
  the computation of the sort keys by \<^verbatim>\<open>sorted\<close>.\<close>

fun traverse :: "('a \<Rightarrow> error + 'b) \<Rightarrow> 'a list \<Rightarrow> error + 'b list" where
  "traverse f [] = Inr []"
| "traverse f (x # xs) =
     bind_err (f x) (\<lambda>y. bind_err (traverse f xs) (\<lambda>ys. Inr (y # ys)))"

text \<open>The elements that a \<^verbatim>\<open>for\<close> loop or \<^verbatim>\<open>sorted\<close> draws from a value: those of
  a list, the keys of a dict, the characters of a string.\<close>

fun py_iter :: "json \<Rightarrow> error + json list" where
  "py_iter (JArr xs) = Inr xs"
| "py_iter (JObj kvs) = Inr (map (\<lambda>kv. JStr (fst kv)) kvs)"
| "py_iter (JStr s) = Inr (map (\<lambda>c. JStr [c]) s)"
| "py_iter v = Inl TypeError"

text \<open>
  \<^verbatim>\<open>list.sort\<close> on float keys compares them with \<^verbatim>\<open><\<close> only. The model sorts by
  insertion: from the last element to the first, each element is placed before the
  first element whose key is not less than its own. Where \<^verbatim>\<open><\<close> orders the keys (no
  NaN) this is the one result a stable sort can have. With NaN among the keys
  \<^verbatim>\<open>list.sort\<close> has no order to follow and its result depends on its algorithm; it
  leaves a list in which no key is less than the key before it as it is, and so does
  the insertion.
\<close>

fun insort_lt :: "('a \<Rightarrow> pyfloat) \<Rightarrow> 'a \<Rightarrow> 'a list \<Rightarrow> 'a list" where
  "insort_lt f x [] = [x]"
| "insort_lt f x (y # ys) =
     (if float_lt (f y) (f x) then y # insort_lt f x ys else x # y # ys)"

definition sort_lt :: "('a \<Rightarrow> pyfloat) \<Rightarrow> 'a list \<Rightarrow> 'a list" where
  "sort_lt f xs = foldr (insort_lt f) xs []"

text \<open>\<^verbatim>\<open>sorted(xs, key=k, reverse=True)\<close>: the keys are computed once, in list order;
  the list is reversed, sorted stably in ascending order of the keys, and reversed
  again.\<close>

definition sorted_reverse :: "('a \<Rightarrow> error + pyfloat) \<Rightarrow> 'a list \<Rightarrow> error + 'a list" where
  "sorted_reverse k xs =
     bind_err (traverse k xs) (\<lambda>ks. Inr (map snd (rev (sort_lt fst (rev (zip ks xs))))))"

section \<open>Alphavantage functions\<close>

subsection \<open>\<^verbatim>\<open>search_stock_symbol\<close>\<close>

text \<open>A value placed in an f-string: a string as it is, any other value through
  \<^verbatim>\<open>str\<close>.\<close>

definition format_value :: "'w env \<Rightarrow> json \<Rightarrow> string" where
  "format_value E v = (case v of JStr s \<Rightarrow> s | _ \<Rightarrow> str_of_value E v)"

definition search_url :: "'w env \<Rightarrow> json \<Rightarrow> string" where
  "search_url E keywords =
     ''https://www.alphavantage.co/query?function=SYMBOL_SEARCH&keywords='' @ format_value E keywords
       @ ''&apikey='' @ alphavantage_api_key E"

text \<open>One formatted result: the dict with the keys \<^verbatim>\<open>symbol\<close>, \<^verbatim>\<open>name\<close>,
  \<^verbatim>\<open>region\<close> and \<^verbatim>\<open>score\<close>.\<close>

record symbol_match =
  match_symbol :: "json"
  match_name :: "json"
  match_region :: "json"
  match_score :: pyfloat

definition symbol_match_dict :: "symbol_match \<Rightarrow> json" where
  "symbol_match_dict m =
     JObj [(''symbol'', match_symbol m), (''name'', match_name m),
           (''region'', match_region m), (''score'', JFloat (match_score m))]"

text \<open>The sort key \<^verbatim>\<open>lambda x: float(x.get('9. matchScore', 0))\<close>.\<close>

definition match_score_key :: "'w env \<Rightarrow> json \<Rightarrow> error + pyfloat" where
  "match_score_key E x = bind_err (py_get x ''9. matchScore'' (JInt 0)) (py_float E)"

text \<open>The body of the list comprehension; the four subscripts are evaluated in the
  order of the dict display.\<close>

definition format_match :: "'w env \<Rightarrow> json \<Rightarrow> error + symbol_match" where
  "format_match E match =
     bind_err (py_getitem match ''1. symbol'') (\<lambda>s.
     bind_err (py_getitem match ''2. name'') (\<lambda>n.
     bind_err (py_getitem match ''4. region'') (\<lambda>r.
     bind_err (py_getitem match ''9. matchScore'') (\<lambda>v.
     bind_err (py_float E v) (\<lambda>f.
       Inr \<lparr>match_symbol = s, match_name = n, match_region = r, match_score = f\<rparr>)))))"

text \<open>The part of \<^verbatim>\<open>search_stock_symbol\<close> after \<^verbatim>\<open>data = response.json()\<close>.\<close>

definition search_results :: "'w env \<Rightarrow> json \<Rightarrow> error + string" where
  "search_results E data =
     bind_err (py_contains ''bestMatches'' data) (\<lambda>present.
       if present then
         bind_err (py_getitem data ''bestMatches'') (\<lambda>best.
         bind_err (py_iter best) (\<lambda>xs.
         bind_err (sorted_reverse (match_score_key E) xs) (\<lambda>matches.
         bind_err (traverse (format_match E) matches) (\<lambda>results.
           Inr (json_dumps (float_repr E) (JArr (map symbol_match_dict results)))))))
       else Inr (json_dumps (float_repr E) (JArr [])))"

definition search_stock_symbol :: "'w env \<Rightarrow> json \<Rightarrow> (string, 'w) io" where
  "search_stock_symbol E keywords w =
     (case requests_get_json E (search_url E keywords) w of
        (Inl e, w') \<Rightarrow> (Inl e, w')
      | (Inr data, w') \<Rightarrow> (search_results E data, w'))"

subsection \<open>\<^verbatim>\<open>get_stock_price\<close>\<close>

definition quote_url :: "'w env \<Rightarrow> json \<Rightarrow> string" where
  "quote_url E symbol =
     ''https://www.alphavantage.co/query?function=GLOBAL_QUOTE&symbol='' @ format_value E symbol
       @ ''&apikey='' @ alphavantage_api_key E"

definition error_marker :: "json" where
  "error_marker = JObj [(''error'', JStr ''No price data available'')]"

text \<open>The part of \<^verbatim>\<open>get_stock_price\<close> after \<^verbatim>\<open>data = response.json()\<close>;
  \<^verbatim>\<open>quote.get(k)\<close> has the default \<^verbatim>\<open>None\<close>.\<close>

definition quote_results :: "'w env \<Rightarrow> json \<Rightarrow> error + string" where
  "quote_results E data =
     bind_err (py_contains ''Global Quote'' data) (\<lambda>present.
       if present then
         bind_err (py_getitem data ''Global Quote'') (\<lambda>quote.
         bind_err (py_get quote ''01. symbol'' JNull) (\<lambda>s.
         bind_err (py_get quote ''05. price'' JNull) (\<lambda>p.
         bind_err (py_get quote ''09. change'' JNull) (\<lambda>c.
         bind_err (py_get quote ''10. change percent'' JNull) (\<lambda>cp.
           Inr (json_dumps (float_repr E)
                  (JObj [(''symbol'', s), (''price'', p), (''change'', c),
                         (''change_percent'', cp)])))))))
       else Inr (json_dumps (float_repr E) error_marker))"

definition get_stock_price :: "'w env \<Rightarrow> json \<Rightarrow> (string, 'w) io" where
  "get_stock_price E symbol w =
     (case requests_get_json E (quote_url E symbol) w of
        (Inl e, w') \<Rightarrow> (Inl e, w')
      | (Inr data, w') \<Rightarrow> (quote_results E data, w'))"


section \<open>Groq chat helper functions\<close>

subsection \<open>\<^verbatim>\<open>process_stream\<close>\<close>

text \<open>The local variables of the loop, and what \<^verbatim>\<open>print\<close> has written so far.\<close>

record stream_state =
  full_text :: string
  acc_tool_calls :: "tool_call list"
  printed :: "string list"

text \<open>One iteration. \<^verbatim>\<open>chunk.choices[0]\<close> raises IndexError on a chunk without
  choices; a content or a list of tool calls counts when it is present and not empty.\<close>

definition stream_step :: "stream_state \<Rightarrow> chunk \<Rightarrow> error + stream_state" where
  "stream_step st c =
     (case choices c of
        [] \<Rightarrow> Inl IndexError
      | d # _ \<Rightarrow>
          let st1 = (case delta_content d of
                       None \<Rightarrow> st
                     | Some text \<Rightarrow>
                         if text \<noteq> [] then
                           st\<lparr>full_text := full_text st @ text, printed := printed st @ [text]\<rparr>
                         else st);
              st2 = (case delta_tool_calls d of
                       None \<Rightarrow> st1
                     | Some tcs \<Rightarrow>
                         if tcs \<noteq> [] then st1\<lparr>acc_tool_calls := acc_tool_calls st1 @ tcs\<rparr>
                         else st1)
          in Inr st2)"

fun stream_loop :: "stream_state \<Rightarrow> chunk list \<Rightarrow> error + stream_state" where
  "stream_loop st [] = Inr st"
| "stream_loop st (c # cs) = bind_err (stream_step st c) (\<lambda>st'. stream_loop st' cs)"

text \<open>The result is what was printed, and the returned dict. When the loop raises,
  what it printed before is not kept.\<close>

definition process_stream :: "chunk list \<Rightarrow> error + string list \<times> message" where
  "process_stream response =
     bind_err (stream_loop \<lparr>full_text = [], acc_tool_calls = [], printed = []\<rparr> response)
       (\<lambda>st. Inr (printed st,
                   \<lparr>role = Assistant, content = full_text st,
                    tool_calls = Some (acc_tool_calls st), tool_call_id = None\<rparr>))"

subsection \<open>\<^verbatim>\<open>get_model_response\<close>\<close>

definition model :: string where
  "model = ''llama-3.3-70b-versatile''"

definition get_model_response ::
  "'w env \<Rightarrow> message list \<Rightarrow> json list \<Rightarrow> (string list \<times> message, 'w) io" where
  "get_model_response E messages tools w =
     (case chat_completions_create E
             \<lparr>req_model = model, req_messages = messages, req_tools = tools,
              req_tool_choice = ''auto'', req_max_completion_tokens = 4096,
              req_stream = True\<rparr> w of
        (Inl e, w') \<Rightarrow> (Inl e, w')
      | (Inr response_stream, w') \<Rightarrow> (process_stream response_stream, w'))"

subsection \<open>\<^verbatim>\<open>process_tool_calls\<close>\<close>

text \<open>A registered function: it is called with keyword arguments and returns the text
  that becomes the content of the tool message (\<^verbatim>\<open>str\<close> of a string is the string).\<close>

type_synonym 'w tool_function = "(string \<times> json) list \<Rightarrow> (string, 'w) io"

text \<open>\<^verbatim>\<open>function_to_call(**function_args)\<close>: what follows \<^verbatim>\<open>**\<close> must be a
  mapping.\<close>

definition call_with_kwargs :: "'w tool_function \<Rightarrow> json \<Rightarrow> (string, 'w) io" where
  "call_with_kwargs function_to_call function_args w =
     (case function_args of
        JObj kwargs \<Rightarrow> function_to_call kwargs w
      | _ \<Rightarrow> (Inl TypeError, w))"

text \<open>The loop over the tool calls. The message list is changed in place, so the
  list reached so far is returned also when a step raises (\<open>Some e\<close>).\<close>

fun tool_calls_loop ::
  "'w env \<Rightarrow> (string \<rightharpoonup> 'w tool_function) \<Rightarrow> tool_call list \<Rightarrow> message list \<Rightarrow>
     'w \<Rightarrow> error option \<times> message list \<times> 'w" where
  "tool_calls_loop E available_functions [] messages w = (None, messages, w)"
| "tool_calls_loop E available_functions (tc # tcs) messages w =
     (case available_functions (fn_name tc) of
        None \<Rightarrow> tool_calls_loop E available_functions tcs messages w
      | Some function_to_call \<Rightarrow>
          (case json_loads E (fn_arguments tc) of
             None \<Rightarrow> (Some JSONDecodeError, messages, w)
           | Some function_args \<Rightarrow>
               (case call_with_kwargs function_to_call function_args w of
                  (Inl e, w') \<Rightarrow> (Some e, messages, w')
                | (Inr function_response, w') \<Rightarrow>
                    tool_calls_loop E available_functions tcs
                      (messages @ [\<lparr>role = Tool, content = function_response,
                                    tool_calls = None, tool_call_id = Some (tc_id tc)\<rparr>])
                      w')))"

text \<open>\<^verbatim>\<open>response_message.get("tool_calls", [])\<close>.\<close>

definition requested_calls :: "message \<Rightarrow> tool_call list" where
  "requested_calls response_message =
     (case tool_calls response_message of None \<Rightarrow> [] | Some tcs \<Rightarrow> tcs)"

definition process_tool_calls ::
  "'w env \<Rightarrow> message \<Rightarrow> message list \<Rightarrow> (string \<rightharpoonup> 'w tool_function) \<Rightarrow>
     'w \<Rightarrow> error option \<times> message list \<times> 'w" where
  "process_tool_calls E response_message messages available_functions w =
     tool_calls_loop E available_functions (requested_calls response_message) messages w"


section \<open>Main stock information flow\<close>

subsection \<open>The fixed data of \<^verbatim>\<open>get_stock_info\<close>\<close>

definition system_message :: message where
  "system_message =
     \<lparr>role = System,
      content = ''You are a helpful stock market assistant. When searching for a stock, first help find the correct symbol use the search_stock_symbol tool to find matching stock symbols, then get its current price using the get_stock_price tool. If multiple symbols are found, ask the user which one they want to look up, return only a numbered list of symbols along with the company name and region, with no additional text or questions. Present the information in a clear, organized way.'',
      tool_calls = None, tool_call_id = None\<rparr>"

definition user_message :: "string \<Rightarrow> message" where
  "user_message text = \<lparr>role = User, content = text, tool_calls = None, tool_call_id = None\<rparr>"

text \<open>One entry of the tool schema: a function with one required string parameter.\<close>

definition tool_definition :: "string \<Rightarrow> string \<Rightarrow> string \<Rightarrow> string \<Rightarrow> json" where
  "tool_definition fname description param param_description =
     JObj [(''type'', JStr ''function''),
           (''function'',
            JObj [(''name'', JStr fname),
                  (''description'', JStr description),
                  (''parameters'',
                   JObj [(''type'', JStr ''object''),
                         (''properties'',
                          JObj [(param,
                                 JObj [(''type'', JStr ''string''),
                                       (''description'', JStr param_description)])]),
                         (''required'', JArr [JStr param])])])]"

definition tools :: "json list" where
  "tools =
     [tool_definition ''search_stock_symbol''
        ''Search for stock symbols by company name or keywords''
        ''keywords'' ''Company name or keywords to search for'',
      tool_definition ''get_stock_price''
        ''Get the current stock price and related information for a given symbol''
        ''symbol'' ''The stock symbol to look up'']"

text \<open>Calling a Python function of one required parameter with keyword arguments:
  the arguments must be exactly that parameter.\<close>

definition bind_keyword ::
  "string \<Rightarrow> (json \<Rightarrow> (string, 'w) io) \<Rightarrow> 'w tool_function" where
  "bind_keyword param f kwargs w =
     (case kwargs of
        [(k, v)] \<Rightarrow> if k = param then f v w else (Inl TypeError, w)
      | _ \<Rightarrow> (Inl TypeError, w))"

definition available_functions ::
  "'w env \<Rightarrow> string \<rightharpoonup> 'w tool_function" where
  "available_functions E =
     [''search_stock_symbol'' \<mapsto> bind_keyword ''keywords'' (search_stock_symbol E),
      ''get_stock_price'' \<mapsto> bind_keyword ''symbol'' (get_stock_price E)]"

subsection \<open>The state of a session\<close>

text \<open>
  The conversation list, the text written to the terminal and the outside world. The
  field \<open>model_calls\<close> is a history variable: it records, in order, the message list
  with which each chat completion was requested. The chat client is handed the list
  and is taken not to change it; the script changes it by \<^verbatim>\<open>append\<close> only, and the
  dicts in it are not changed after they are built.
\<close>

record 'w session =
  messages :: "message list"
  model_calls :: "message list list"
  stdout :: "string list"
  world :: 'w

text \<open>\<^verbatim>\<open>input(prompt)\<close>.\<close>

definition ask :: "'w env \<Rightarrow> string \<Rightarrow> 'w session \<Rightarrow> (error + string) \<times> 'w session" where
  "ask E prompt s =
     (case input_py E prompt (world s) of
        (r, w') \<Rightarrow> (r, s\<lparr>stdout := stdout s @ [prompt], world := w'\<rparr>))"

text \<open>\<^verbatim>\<open>get_model_response(messages, tools)\<close> on the conversation list of the
  session.\<close>

definition call_model :: "'w env \<Rightarrow> 'w session \<Rightarrow> (error + message) \<times> 'w session" where
  "call_model E s =
     (case get_model_response E (messages s) tools (world s) of
        (Inl e, w') \<Rightarrow>
          (Inl e, s\<lparr>model_calls := model_calls s @ [messages s], world := w'\<rparr>)
      | (Inr (out, response), w') \<Rightarrow>
          (Inr response,
           s\<lparr>model_calls := model_calls s @ [messages s], stdout := stdout s @ out,
             world := w'\<rparr>))"

text \<open>\<^verbatim>\<open>messages.append(m)\<close>.\<close>

definition append_message :: "message \<Rightarrow> 'w session \<Rightarrow> 'w session" where
  "append_message m s = s\<lparr>messages := messages s @ [m]\<rparr>"

text \<open>\<^verbatim>\<open>process_tool_calls(response, messages, available_functions)\<close> on the
  conversation list of the session.\<close>

definition dispatch ::
  "'w env \<Rightarrow> message \<Rightarrow> 'w session \<Rightarrow> error option \<times> 'w session" where
  "dispatch E response s =
     (case process_tool_calls E response (messages s) (available_functions E) (world s) of
        (r, messages', w') \<Rightarrow> (r, s\<lparr>messages := messages', world := w'\<rparr>))"

text \<open>Running one part of the flow after another: an exception ends the session.\<close>

definition and_then ::
  "('w session \<Rightarrow> error option \<times> 'w session) \<Rightarrow> ('w session \<Rightarrow> error option \<times> 'w session) \<Rightarrow>
     'w session \<Rightarrow> error option \<times> 'w session" where
  "and_then f g s = (case f s of (None, s') \<Rightarrow> g s' | (Some e, s') \<Rightarrow> (Some e, s'))"

subsection \<open>The three assistant calls\<close>

text \<open>First assistant call: the response is appended and its tool calls are
  processed.\<close>

definition first_assistant_call ::
  "'w env \<Rightarrow> 'w session \<Rightarrow> error option \<times> 'w session" where
  "first_assistant_call E s =
     (case call_model E s of
        (Inl e, s1) \<Rightarrow> (Some e, s1)
      | (Inr initial_response, s1) \<Rightarrow>
          dispatch E initial_response (append_message initial_response s1))"

text \<open>Second assistant call: the response is appended, then the user's choice.\<close>

definition second_assistant_call ::
  "'w env \<Rightarrow> 'w session \<Rightarrow> error option \<times> 'w session" where
  "second_assistant_call E s =
     (case call_model E s of
        (Inl e, s1) \<Rightarrow> (Some e, s1)
      | (Inr final_response, s1) \<Rightarrow>
          (case ask E ([CHR 0x0A, CHR 0x0A] @ ''Enter the number of your chosen symbol: '')
                  (append_message final_response s1) of
             (Inl e, s2) \<Rightarrow> (Some e, s2)
           | (Inr user_choice, s2) \<Rightarrow>
               (None,
                append_message (user_message (''I choose option '' @ user_choice @ ''.'')) s2)))"

text \<open>Third assistant call: the response is appended; if it has tool calls they
  are processed and the model is called once more, the response of that last call
  being dropped.\<close>

definition third_assistant_call ::
  "'w env \<Rightarrow> 'w session \<Rightarrow> error option \<times> 'w session" where
  "third_assistant_call E s =
     (case call_model E s of
        (Inl e, s1) \<Rightarrow> (Some e, s1)
      | (Inr final_choice_response, s1) \<Rightarrow>
          let s2 = append_message final_choice_response s1 in
          if requested_calls final_choice_response \<noteq> [] then
            and_then (dispatch E final_choice_response)
              (\<lambda>s3. case call_model E s3 of
                       (Inl e, s4) \<Rightarrow> (Some e, s4)
                     | (Inr final_response, s4) \<Rightarrow> (None, s4))
              s2
          else (None, s2))"

subsection \<open>\<^verbatim>\<open>get_stock_info\<close>\<close>

definition initial_messages :: "string \<Rightarrow> message list" where
  "initial_messages stock_query =
     [system_message,
      user_message (''What's the current stock price for '' @ stock_query @ ''?'')]"

definition get_stock_info :: "'w env \<Rightarrow> 'w \<Rightarrow> error option \<times> 'w session" where
  "get_stock_info E w =
     (case ask E ''Enter the stock or company name you want to search for: ''
             \<lparr>messages = [], model_calls = [], stdout = [], world = w\<rparr> of
        (Inl e, s) \<Rightarrow> (Some e, s)
      | (Inr stock_query, s) \<Rightarrow>
          and_then (first_assistant_call E)
            (and_then (second_assistant_call E) (third_assistant_call E))
            (s\<lparr>messages := initial_messages stock_query\<rparr>))"


section \<open>Notions used to state the properties\<close>

text \<open>An entry of the match list as the provider sends it, and the result it stands
  for: a dict that carries the symbol, the name, the region and a match score that
  \<^verbatim>\<open>float\<close> reads as the score of the result.\<close>

fun provider_entry :: "'w env \<Rightarrow> json \<Rightarrow> symbol_match \<Rightarrow> bool" where
  "provider_entry E (JObj kvs) m =
     (map_of kvs ''1. symbol'' = Some (match_symbol m) \<and>
      map_of kvs ''2. name'' = Some (match_name m) \<and>
      map_of kvs ''4. region'' = Some (match_region m) \<and>
      (case map_of kvs ''9. matchScore'' of
         None \<Rightarrow> False
       | Some v \<Rightarrow> py_float E v = Inr (match_score m)))"
| "provider_entry E v m = False"

text \<open>A dict that lacks one of the four fields read by the list comprehension.\<close>

definition lacks_field :: "(string \<times> json) list \<Rightarrow> bool" where
  "lacks_field kvs =
     (map_of kvs ''1. symbol'' = None \<or> map_of kvs ''2. name'' = None \<or>
      map_of kvs ''4. region'' = None \<or> map_of kvs ''9. matchScore'' = None)"

text \<open>The quote record in which no field has a value.\<close>

definition null_quote :: "json" where
  "null_quote =
     JObj [(''symbol'', JNull), (''price'', JNull), (''change'', JNull),
           (''change_percent'', JNull)]"

text \<open>The text and the tool calls that a streamed fragment carries: those of the
  delta of its first choice.\<close>

definition fragment_text :: "chunk \<Rightarrow> string" where
  "fragment_text c =
     (case choices c of
        [] \<Rightarrow> []
      | d # _ \<Rightarrow> (case delta_content d of None \<Rightarrow> [] | Some text \<Rightarrow> text))"

definition fragment_tool_calls :: "chunk \<Rightarrow> tool_call list" where
  "fragment_tool_calls c =
     (case choices c of
        [] \<Rightarrow> []
      | d # _ \<Rightarrow> (case delta_tool_calls d of None \<Rightarrow> [] | Some tcs \<Rightarrow> tcs))"

text \<open>The argument text of a tool call decodes to a key-value mapping.\<close>

definition decodes_to_mapping :: "'w env \<Rightarrow> string \<Rightarrow> bool" where
  "decodes_to_mapping E text =
     (case json_loads E text of Some (JObj kwargs) \<Rightarrow> True | _ \<Rightarrow> False)"

text \<open>The tool-role messages that answer the tool call id \<open>i\<close> in a message list, and
  the lists in which every tool call of every assistant message has exactly one
  answer.\<close>

definition answers_to :: "string \<Rightarrow> message list \<Rightarrow> message list" where
  "answers_to i ms = filter (\<lambda>m. role m = Tool \<and> tool_call_id m = Some i) ms"

definition all_answered :: "message list \<Rightarrow> bool" where
  "all_answered ms =
     list_all (\<lambda>m. role m \<noteq> Assistant \<or>
                   list_all (\<lambda>tc. length (answers_to (tc_id tc) ms) = 1) (requested_calls m)) ms"

text \<open>A list of messages that answers a list of tool calls one by one, in order.\<close>

definition tool_replies :: "tool_call list \<Rightarrow> message list \<Rightarrow> bool" where
  "tool_replies tcs replies =
     list_all2 (\<lambda>tc m. role m = Tool \<and> tool_call_id m = Some (tc_id tc)) tcs replies"

text \<open>The tool calls of a response whose function name is in a registry.\<close>

definition registered_calls ::
  "(string \<rightharpoonup> 'w tool_function) \<Rightarrow> message \<Rightarrow> tool_call list" where
  "registered_calls registry response =
     filter (\<lambda>tc. registry (fn_name tc) \<noteq> None) (requested_calls response)"

text \<open>The conversation lists observed in a session: those with which the model was
  called, in order, and the final one.\<close>

definition snapshots :: "'w session \<Rightarrow> message list list" where
  "snapshots s = model_calls s @ [messages s]"

text \<open>What a model call that follows a dispatch was issued with: the list of the
  call before it, the assistant message, and one reply for each of its registered tool
  calls.\<close>

definition answered_round :: "'w env \<Rightarrow> message list \<Rightarrow> message list \<Rightarrow> bool" where
  "answered_round E before issued =
     (\<exists>a replies. issued = before @ a # replies \<and> role a = Assistant \<and>
        tool_replies (registered_calls (available_functions E) a) replies)"

section \<open>Example sessions\<close>

text \<open>A scripted environment: floats are rationals, the world counts the calls made
  to the outside, the remote answers are given by the script.\<close>

definition example_float_of_str :: "string \<Rightarrow> pyfloat option" where
  "example_float_of_str s =
     (if s = ''1.0000'' then Some (Finite 1)
      else if s = ''0.6000'' then Some (Finite (3 / 5))
      else if s = ''0.5000'' then Some (Finite (1 / 2))
      else if s = ''0.0000'' then Some (Finite 0)
      else if s = ''-0.0000'' then Some NegZero
      else if s = ''nan'' then Some NaN
      else None)"

definition example_float_repr :: "rat \<Rightarrow> string" where
  "example_float_repr r =
     (if r = 1 then ''1.0'' else if r = 3 / 5 then ''0.6'' else if r = 1 / 2 then ''0.5''
      else ''0.0'')"

definition example_json_loads :: "string \<Rightarrow> json option" where
  \<open>example_json_loads s =
     (if s = ''{"keywords": "Apple"}'' then Some (JObj [(''keywords'', JStr ''Apple'')])
      else if s = ''{"symbol": "AAPL"}'' then Some (JObj [(''symbol'', JStr ''AAPL'')])
      else if s = ''["AAPL"]'' then Some (JArr [JStr ''AAPL''])
      else None)\<close>

definition example_env ::
  "(string \<Rightarrow> error + json) \<Rightarrow> (message list \<Rightarrow> error + chunk list) \<Rightarrow> nat env" where
  "example_env http chat =
     \<lparr>alphavantage_api_key = ''demo'',
      float_of_str = example_float_of_str,
      float_of_int = (\<lambda>i. Some (Finite (of_int i))),
      float_repr = example_float_repr,
      str_of_value = (\<lambda>v. ''None''),
      json_loads = example_json_loads,
      requests_get_json = (\<lambda>url w. (http url, Suc w)),
      chat_completions_create = (\<lambda>req w. (chat (req_messages req), Suc w)),
      input_py = (\<lambda>prompt w. (Inr (if w = 0 then ''Apple'' else ''1''), Suc w))\<rparr>"

text \<open>An environment whose provider answers every request with \<open>data\<close>.\<close>

definition provider_env :: "json \<Rightarrow> nat env" where
  "provider_env data = example_env (\<lambda>url. Inr data) (\<lambda>ms. Inr [])"

definition example_entries :: "json list" where
  "example_entries =
     [JObj [(''1. symbol'', JStr ''APLE''), (''2. name'', JStr ''Apple Hospitality REIT Inc''),
            (''4. region'', JStr ''United States''), (''9. matchScore'', JStr ''0.6000'')],
      JObj [(''1. symbol'', JStr ''AAPL''), (''2. name'', JStr ''Apple Inc''),
            (''4. region'', JStr ''United States''), (''9. matchScore'', JStr ''1.0000'')],
      JObj [(''1. symbol'', JStr ''APC.FRK''), (''2. name'', JStr ''Apple Inc''),
            (''4. region'', JStr ''Frankfurt''), (''9. matchScore'', JStr ''0.6000'')]]"

definition example_matches :: "symbol_match list" where
  "example_matches =
     [\<lparr>match_symbol = JStr ''APLE'', match_name = JStr ''Apple Hospitality REIT Inc'',
       match_region = JStr ''United States'', match_score = Finite (3 / 5)\<rparr>,
      \<lparr>match_symbol = JStr ''AAPL'', match_name = JStr ''Apple Inc'',
       match_region = JStr ''United States'', match_score = Finite 1\<rparr>,
      \<lparr>match_symbol = JStr ''APC.FRK'', match_name = JStr ''Apple Inc'',
       match_region = JStr ''Frankfurt'', match_score = Finite (3 / 5)\<rparr>]"

text \<open>The text of the three entries in descending stable order.\<close>

definition example_results_text :: string where
  \<open>example_results_text =
     ''[{"symbol": "AAPL", "name": "Apple Inc", "region": "United States", "score": 1.0}, ''
     @ ''{"symbol": "APLE", "name": "Apple Hospitality REIT Inc", "region": "United States", "score": 0.6}, ''
     @ ''{"symbol": "APC.FRK", "name": "Apple Inc", "region": "Frankfurt", "score": 0.6}]''\<close>

text \<open>An entry with the four fields and the given symbol and match score.\<close>

definition scored_entry :: "string \<Rightarrow> json \<Rightarrow> json" where
  "scored_entry ticker sc =
     JObj [(''1. symbol'', JStr ticker), (''2. name'', JStr ''Apple Inc''),
           (''4. region'', JStr ''United States''), (''9. matchScore'', sc)]"

text \<open>Entries whose scores are 0.5, NaN and 1.0; entries of which one has a score that
  is no number; entries with the two zeros.\<close>

definition nan_entries :: "json list" where
  "nan_entries =
     [scored_entry ''A'' (JStr ''0.5000''), scored_entry ''B'' (JStr ''nan''),
      scored_entry ''C'' (JStr ''1.0000'')]"

definition unreadable_entries :: "json list" where
  "unreadable_entries =
     [scored_entry ''A'' (JStr ''1.0000''), scored_entry ''B'' (JStr ''n/a'')]"

definition zero_entries :: "json list" where
  "zero_entries =
     [scored_entry ''A'' (JStr ''-0.0000''), scored_entry ''B'' (JStr ''0.0000''),
      scored_entry ''C'' (JStr ''-0.0000'')]"

text \<open>Entries without symbol: one with the score null, one next to an entry whose
  score is no number.\<close>

definition null_score_entries :: "json list" where
  "null_score_entries =
     [JObj [(''2. name'', JStr ''Apple Inc''), (''4. region'', JStr ''United States''),
            (''9. matchScore'', JNull)]]"

definition text_score_entries :: "json list" where
  "text_score_entries =
     [JObj [(''2. name'', JStr ''Apple Inc''), (''4. region'', JStr ''United States''),
            (''9. matchScore'', JStr ''1.0000'')],
      scored_entry ''B'' (JStr ''n/a'')]"

text \<open>An entry without a match score, next to a complete one.\<close>

definition incomplete_entries :: "json list" where
  "incomplete_entries =
     [JObj [(''1. symbol'', JStr ''AAPL''), (''2. name'', JStr ''Apple Inc''),
            (''4. region'', JStr ''United States''), (''9. matchScore'', JStr ''1.0000'')],
      JObj [(''1. symbol'', JStr ''APLE''), (''2. name'', JStr ''Apple Hospitality REIT Inc''),
            (''4. region'', JStr ''United States'')]]"

definition text_chunk :: "string \<Rightarrow> chunk" where
  "text_chunk text = \<lparr>choices = [\<lparr>delta_content = Some text, delta_tool_calls = None\<rparr>]\<rparr>"

definition calls_chunk :: "tool_call list \<Rightarrow> chunk" where
  "calls_chunk tcs = \<lparr>choices = [\<lparr>delta_content = None, delta_tool_calls = Some tcs\<rparr>]\<rparr>"

definition search_call :: "string \<Rightarrow> tool_call" where
  \<open>search_call i =
     \<lparr>tc_id = i, fn_name = ''search_stock_symbol'', fn_arguments = ''{"keywords": "Apple"}''\<rparr>\<close>

definition price_call :: "string \<Rightarrow> tool_call" where
  \<open>price_call i =
     \<lparr>tc_id = i, fn_name = ''get_stock_price'', fn_arguments = ''{"symbol": "AAPL"}''\<rparr>\<close>

text \<open>A model that requests two tool calls at once in the first round, answers in
  text in the second, and requests the price in the third. The conversation has 2
  messages at the first call, 5 at the second, 7 at the third and 9 at the last.\<close>

definition two_calls_chat :: "message list \<Rightarrow> error + chunk list" where
  "two_calls_chat ms =
     (if length ms = 2 then Inr [calls_chunk [search_call ''call_a'', price_call ''call_b'']]
      else if length ms = 7 then Inr [calls_chunk [price_call ''call_c'']]
      else Inr [text_chunk ''1. AAPL'', text_chunk '' Apple Inc''])"

definition two_calls_env :: "nat env" where
  "two_calls_env = example_env (\<lambda>url. Inr (JObj [])) two_calls_chat"

text \<open>Tool calls that the dispatcher does not answer: a function that is not
  registered, arguments that decode to a list, arguments that do not decode.\<close>

definition weather_call :: "string \<Rightarrow> tool_call" where
  \<open>weather_call i =
     \<lparr>tc_id = i, fn_name = ''get_weather'', fn_arguments = ''{"keywords": "Apple"}''\<rparr>\<close>

definition list_call :: "string \<Rightarrow> tool_call" where
  \<open>list_call i =
     \<lparr>tc_id = i, fn_name = ''get_stock_price'', fn_arguments = ''["AAPL"]''\<rparr>\<close>

definition broken_call :: "string \<Rightarrow> tool_call" where
  \<open>broken_call i =
     \<lparr>tc_id = i, fn_name = ''get_stock_price'', fn_arguments = ''{"symbol": ''\<rparr>\<close>

text \<open>An assistant message that requests the given tool calls.\<close>

definition assistant_requests :: "tool_call list \<Rightarrow> message" where
  "assistant_requests tcs =
     \<lparr>role = Assistant, content = [], tool_calls = Some tcs, tool_call_id = None\<rparr>"

definition tool_message :: "string \<Rightarrow> string \<Rightarrow> message" where
  "tool_message i text =
     \<lparr>role = Tool, content = text, tool_calls = None, tool_call_id = Some i\<rparr>"

text \<open>A model that requests a search and an unregistered function at once in the
  first round, requests a search in the second round and answers in text in the
  third. The conversation has 2 messages at the first call, 4 at the second and 6 at
  the third.\<close>

definition unanswered_chat :: "message list \<Rightarrow> error + chunk list" where
  "unanswered_chat ms =
     (if length ms = 2 then Inr [calls_chunk [search_call ''call_a'', weather_call ''call_x'']]
      else if length ms = 4 then Inr [calls_chunk [search_call ''call_c'']]
      else Inr [text_chunk ''Which company?''])"

definition unanswered_env :: "nat env" where
  "unanswered_env = example_env (\<lambda>url. Inr (JObj [])) unanswered_chat"

section \<open>Properties of the Alphavantage functions\<close>

subsection \<open>Traversals\<close>

lemma traverse_Inr:
  "list_all2 (\<lambda>x y. f x = Inr y) xs ys \<Longrightarrow> traverse f xs = Inr ys"
  by (induction rule: list_all2_induct) (simp_all add: bind_err_def)

lemma traverse_Inl_elem:
  "traverse f xs = Inl e \<Longrightarrow> \<exists>x\<in>set xs. f x = Inl e"
  by (induction xs) (auto simp: bind_err_def split: sum.splits)

lemma traverse_raises:
  "x \<in> set xs \<Longrightarrow> f x = Inl e \<Longrightarrow> \<exists>e'. traverse f xs = Inl e'"
  by (induction xs) (auto simp: bind_err_def split: sum.splits)

lemma traverse_length:
  "traverse f xs = Inr ys \<Longrightarrow> length ys = length xs"
  by (induction xs arbitrary: ys) (auto simp: bind_err_def split: sum.splits)

subsection \<open>The insertion sort on float keys\<close>

lemma sort_lt_Cons: "sort_lt f (x # xs) = insort_lt f x (sort_lt f xs)"
  by (simp add: sort_lt_def)

lemma sort_lt_Nil: "sort_lt f [] = []"
  by (simp add: sort_lt_def)

lemma insort_lt_map:
  "insort_lt f (g x) (map g xs) = map g (insort_lt (\<lambda>a. f (g a)) x xs)"
  by (induction xs) simp_all

lemma sort_lt_map: "sort_lt f (map g xs) = map g (sort_lt (\<lambda>a. f (g a)) xs)"
  by (induction xs) (simp_all add: sort_lt_Cons sort_lt_Nil insort_lt_map)

lemma mset_insort_lt: "mset (insort_lt f x xs) = add_mset x (mset xs)"
  by (induction xs) simp_all

lemma mset_sort_lt: "mset (sort_lt f xs) = mset xs"
  by (induction xs) (simp_all add: sort_lt_Cons sort_lt_Nil mset_insort_lt)

lemma set_sort_lt: "set (sort_lt f xs) = set xs"
  by (metis mset_sort_lt set_mset_mset)

text \<open>A list in which no key is less than the key before it is left as it is, with
  or without NaN.\<close>

lemma sort_lt_run:
  "successively (\<lambda>a b. \<not> float_lt (f b) (f a)) xs \<Longrightarrow> sort_lt f xs = xs"
proof (induction xs)
  case Nil
  show ?case by (simp add: sort_lt_Nil)
next
  case (Cons x xs)
  then show ?case
    by (cases xs) (simp_all add: sort_lt_Cons sort_lt_Nil)
qed

text \<open>Without NaN the insertion is the insertion of a stable sort by the place of the
  keys in the order of the floats.\<close>

lemma insort_lt_insort_key:
  "f x \<noteq> NaN \<Longrightarrow> \<forall>y\<in>set ys. f y \<noteq> NaN \<Longrightarrow>
   insort_lt f x ys = insort_key (\<lambda>z. float_rank (f z)) x ys"
  by (induction ys) (auto simp: float_lt_def)

lemma sort_lt_sort_key:
  "\<forall>y\<in>set xs. f y \<noteq> NaN \<Longrightarrow> sort_lt f xs = sort_key (\<lambda>z. float_rank (f z)) xs"
proof (induction xs)
  case Nil
  show ?case by (simp add: sort_lt_Nil)
next
  case (Cons x xs)
  then have "sort_lt f xs = sort_key (\<lambda>z. float_rank (f z)) xs"
    by simp
  moreover have "\<forall>y\<in>set (sort_lt f xs). f y \<noteq> NaN"
    using Cons.prems by (simp add: set_sort_lt)
  ultimately show ?case
    using Cons.prems insort_lt_insort_key [of f x "sort_lt f xs"]
    by (simp add: sort_lt_Cons)
qed

subsection \<open>The reversed stable sort\<close>

text \<open>The list that \<open>sorted_reverse\<close> returns when every key is computed: the
  elements paired with what their keys come from, sorted as pairs.\<close>

lemma sorted_reverse_pairs:
  assumes "list_all2 (\<lambda>x y. k x = Inr (g y)) xs ys"
  shows "sorted_reverse k xs =
         Inr (map fst (rev (sort_lt (\<lambda>p. g (snd p)) (rev (zip xs ys)))))"
proof -
  from assms have len: "length xs = length ys"
    by (rule list_all2_lengthD)
  from assms have "list_all2 (\<lambda>x z. k x = Inr z) xs (map g ys)"
    by (simp add: list_all2_map2)
  then have tr: "traverse k xs = Inr (map g ys)"
    by (rule traverse_Inr)
  have z: "zip (map g ys) xs = map (\<lambda>p. (g (snd p), fst p)) (zip xs ys)"
    using len by (induction xs ys rule: list_induct2) simp_all
  have "map snd (rev (sort_lt fst (rev (zip (map g ys) xs)))) =
        map fst (rev (sort_lt (\<lambda>p. g (snd p)) (rev (zip xs ys))))"
    unfolding z by (simp add: rev_map sort_lt_map comp_def)
  then show ?thesis
    by (simp add: sorted_reverse_def tr bind_err_def)
qed

lemma sorted_reverse_set:
  assumes "sorted_reverse k xs = Inr ys"
  shows "set ys = set xs"
proof -
  from assms obtain ks where tr: "traverse k xs = Inr ks"
    and ys: "ys = map snd (rev (sort_lt fst (rev (zip ks xs))))"
    by (auto simp: sorted_reverse_def bind_err_def split: sum.splits)
  from tr have "length ks = length xs" by (rule traverse_length)
  then have "map snd (zip ks xs) = xs" by simp
  then have "set xs = snd ` set (zip ks xs)" by (metis set_map)
  then show ?thesis by (simp add: ys set_sort_lt)
qed

lemma sorted_reverse_raises:
  "sorted_reverse k xs = Inl e \<longleftrightarrow> traverse k xs = Inl e"
  by (auto simp: sorted_reverse_def bind_err_def split: sum.splits)

lemma sorted_desc_rev_sort_key:
  "sorted_wrt (\<lambda>a b. b \<le> a) (map f (rev (sort_key f xs)))"
proof -
  have "sorted (map f (sort_key f xs))" by (rule sorted_sort_key)
  then show ?thesis by (simp add: rev_map [symmetric] sorted_wrt_rev)
qed

lemma filter_rev_sort_key_rev:
  "filter (\<lambda>y. f y = k) (rev (sort_key f (rev xs))) = filter (\<lambda>y. f y = k) xs"
  by (simp add: rev_filter [symmetric] sort_key_stable)

text \<open>Without NaN among the keys the reversed sort is in descending order, and the
  elements whose keys are equal as floats stay in their order.\<close>

lemma rev_sort_lt_descending:
  assumes "\<forall>y\<in>set xs. f y \<noteq> NaN"
  shows "sorted_wrt (\<lambda>a b. \<not> float_lt (f a) (f b)) (rev (sort_lt f (rev xs)))"
proof -
  have eq: "sort_lt f (rev xs) = sort_key (\<lambda>z. float_rank (f z)) (rev xs)"
    using assms by (simp add: sort_lt_sort_key)
  have "sorted_wrt (\<lambda>a b. b \<le> a)
      (map (\<lambda>z. float_rank (f z)) (rev (sort_key (\<lambda>z. float_rank (f z)) (rev xs))))"
    by (rule sorted_desc_rev_sort_key)
  then have "sorted_wrt (\<lambda>a b. float_rank (f b) \<le> float_rank (f a))
      (rev (sort_key (\<lambda>z. float_rank (f z)) (rev xs)))"
    by (simp add: sorted_wrt_map)
  then show ?thesis
    unfolding eq by (rule sorted_wrt_mono_rel [rotated]) (auto simp: float_lt_def)
qed

lemma rev_sort_lt_stable:
  assumes "\<forall>y\<in>set xs. f y \<noteq> NaN"
  shows "filter (\<lambda>y. float_eq (f y) k) (rev (sort_lt f (rev xs))) =
         filter (\<lambda>y. float_eq (f y) k) xs"
proof (cases "k = NaN")
  case True
  then show ?thesis by (simp add: float_eq_def)
next
  case False
  have eq: "sort_lt f (rev xs) = sort_key (\<lambda>z. float_rank (f z)) (rev xs)"
    using assms by (simp add: sort_lt_sort_key)
  have "filter (\<lambda>y. float_eq (f y) k) (rev (sort_lt f (rev xs))) =
        filter (\<lambda>y. float_rank (f y) = float_rank k) (rev (sort_lt f (rev xs)))"
    using assms False by (intro filter_cong) (auto simp: float_eq_def set_sort_lt)
  also have "\<dots> = filter (\<lambda>y. float_rank (f y) = float_rank k) xs"
    unfolding eq by (rule filter_rev_sort_key_rev)
  also have "\<dots> = filter (\<lambda>y. float_eq (f y) k) xs"
    using assms False by (intro filter_cong) (auto simp: float_eq_def)
  finally show ?thesis .
qed

subsection \<open>Entries of the match list\<close>

lemma provider_entry_key:
  "provider_entry E x m \<Longrightarrow> match_score_key E x = Inr (match_score m)"
  by (cases x) (auto simp: match_score_key_def bind_err_def split: option.splits)

lemma provider_entry_format:
  "provider_entry E x m \<Longrightarrow> format_match E x = Inr m"
  by (cases x) (auto simp: format_match_def bind_err_def split: option.splits)

lemma format_match_lacking:
  "lacks_field kvs \<Longrightarrow> format_match E (JObj kvs) = Inl KeyError"
  by (auto simp: lacks_field_def format_match_def bind_err_def split: option.splits)

text \<open>An entry whose sort key was computed is a dict whose score, if present, is
  read by \<^verbatim>\<open>float\<close>; the list comprehension can then only fail on a missing key.\<close>

lemma format_match_after_key:
  "match_score_key E x = Inr f \<Longrightarrow> format_match E x = Inl e \<Longrightarrow> e = KeyError"
  by (cases x)
     (auto simp: match_score_key_def format_match_def bind_err_def
           split: option.splits sum.splits)

subsection \<open>Serialized constants\<close>

lemma dumps_empty_list: "json_dumps fr (JArr []) = ''[]''"
  by simp

lemma dumps_error_marker:
  \<open>json_dumps fr error_marker = ''{"error": "No price data available"}''\<close>
  by (simp add: error_marker_def encode_basestring_ascii_def escape_char_def)

lemma dumps_null_quote:
  \<open>json_dumps fr null_quote =
     ''{"symbol": null, "price": null, "change": null, "change_percent": null}''\<close>
  by (simp add: null_quote_def encode_basestring_ascii_def escape_char_def)

lemma dumps_quote_not_error_marker:
  "json_dumps fr (JObj [(''symbol'', s), (''price'', p), (''change'', c), (''change_percent'', cp)])
     \<noteq> json_dumps fr error_marker"
  by (simp add: error_marker_def encode_basestring_ascii_def escape_char_def)

text \<open>The text of a list of formatted results.\<close>

lemma dumps_matches:
  \<open>json_dumps fr (JArr (map symbol_match_dict rs)) =
     ''['' @ join '', ''
       (map (\<lambda>m. ''{"symbol": '' @ json_dumps fr (match_symbol m) @
                  '', "name": '' @ json_dumps fr (match_name m) @
                  '', "region": '' @ json_dumps fr (match_region m) @
                  '', "score": '' @ float_text fr (match_score m) @ ''}'') rs) @ '']''\<close>
  by (simp add: symbol_match_dict_def encode_basestring_ascii_def escape_char_def comp_def)

lemmas search_eval_defs =
  search_stock_symbol_def search_results_def sorted_reverse_def match_score_key_def
  format_match_def bind_err_def provider_env_def example_env_def example_float_of_str_def
  example_float_repr_def scored_entry_def symbol_match_dict_def encode_basestring_ascii_def
  escape_char_def sort_lt_Cons sort_lt_Nil float_lt_def

subsection \<open>Claims on \<^verbatim>\<open>search_stock_symbol\<close>\<close>

text \<open>
  C2, as the specification states it, fails in two ways. With the scores 0.5, NaN and
  1.0 the entries come back in the order of the provider, which is not descending:
  no comparison with NaN holds, so the sort finds nothing to move. With a score that
  \<^verbatim>\<open>float\<close> does not read the function raises ValueError and returns nothing.
\<close>

theorem unsorted_scores_counterexample:
  \<open>search_stock_symbol (provider_env (JObj [(''bestMatches'', JArr nan_entries)]))
     (JStr ''Apple'') 0 =
     (Inr (''[{"symbol": "A", "name": "Apple Inc", "region": "United States", "score": 0.5}, ''
         @ ''{"symbol": "B", "name": "Apple Inc", "region": "United States", "score": NaN}, ''
         @ ''{"symbol": "C", "name": "Apple Inc", "region": "United States", "score": 1.0}]''),
      1) \<and>
   float_lt (Finite (1 / 2)) (Finite 1) \<and>
   search_stock_symbol (provider_env (JObj [(''bestMatches'', JArr unreadable_entries)]))
     (JStr ''Apple'') 0 = (Inl ValueError, 1)\<close>
  by (simp add: search_eval_defs nan_entries_def unreadable_entries_def)

text \<open>
  C2, as the code has it. When the provider answers with an object whose
  \<^verbatim>\<open>bestMatches\<close> is a list of \<open>N\<close> dicts, each carrying the symbol, the name, the
  region and a match score that \<^verbatim>\<open>float\<close> reads, \<^verbatim>\<open>search_stock_symbol\<close> returns
  the JSON text of a list of \<open>N\<close> objects with the keys \<^verbatim>\<open>symbol\<close>, \<^verbatim>\<open>name\<close>,
  \<^verbatim>\<open>region\<close> and \<^verbatim>\<open>score\<close>, which are the results of the entries in some order. When
  no score is NaN, no result is followed by one with a greater score, and the results
  whose scores are equal as floats (the two zeros are equal) are in the order of the
  provider's entries.
\<close>

theorem search_sorted_stable:
  fixes E :: "'w env"
  assumes fetch: "requests_get_json E (search_url E keywords) w = (Inr (JObj resp), w')"
    and best: "map_of resp ''bestMatches'' = Some (JArr entries)"
    and shaped: "list_all2 (provider_entry E) entries ms"
  shows \<open>\<exists>results.
      search_stock_symbol E keywords w =
        (Inr (''['' @ join '', ''
           (map (\<lambda>m. ''{"symbol": '' @ json_dumps (float_repr E) (match_symbol m) @
                      '', "name": '' @ json_dumps (float_repr E) (match_name m) @
                      '', "region": '' @ json_dumps (float_repr E) (match_region m) @
                      '', "score": '' @ float_text (float_repr E) (match_score m) @ ''}'')
              results) @ '']''), w') \<and>
      length results = length entries \<and>
      mset results = mset ms \<and>
      (NaN \<notin> match_score ` set ms \<longrightarrow>
         sorted_wrt (\<lambda>a b. \<not> float_lt (match_score a) (match_score b)) results \<and>
         (\<forall>k. filter (\<lambda>m. float_eq (match_score m) k) results =
              filter (\<lambda>m. float_eq (match_score m) k) ms))\<close>
proof -
  let ?key = "\<lambda>p :: json \<times> symbol_match. match_score (snd p)"
  let ?ps = "rev (sort_lt ?key (rev (zip entries ms)))"
  have len: "length entries = length ms"
    using shaped by (rule list_all2_lengthD)
  have "list_all2 (\<lambda>x y. match_score_key E x = Inr (match_score y)) entries ms"
    using shaped by (rule list_all2_mono) (simp add: provider_entry_key)
  then have srt: "sorted_reverse (match_score_key E) entries = Inr (map fst ?ps)"
    by (rule sorted_reverse_pairs)
  have set_ps: "set ?ps = set (zip entries ms)"
    by (simp add: set_sort_lt)
  then have "\<forall>p\<in>set ?ps. provider_entry E (fst p) (snd p)"
    using shaped by (auto simp: list_all2_iff)
  then have "list_all2 (\<lambda>x y. format_match E x = Inr y) (map fst ?ps) (map snd ?ps)"
    by (auto simp: list_all2_map1 list_all2_map2 list_all2_same provider_entry_format)
  then have fmt: "traverse (format_match E) (map fst ?ps) = Inr (map snd ?ps)"
    by (rule traverse_Inr)
  have "search_stock_symbol E keywords w =
      (Inr (json_dumps (float_repr E) (JArr (map symbol_match_dict (map snd ?ps)))), w')"
    by (simp add: search_stock_symbol_def fetch search_results_def best bind_err_def srt fmt
          del: json_dumps.simps)
  then have res: \<open>search_stock_symbol E keywords w =
      (Inr (''['' @ join '', ''
         (map (\<lambda>m. ''{"symbol": '' @ json_dumps (float_repr E) (match_symbol m) @
                    '', "name": '' @ json_dumps (float_repr E) (match_name m) @
                    '', "region": '' @ json_dumps (float_repr E) (match_region m) @
                    '', "score": '' @ float_text (float_repr E) (match_score m) @ ''}'')
            (map snd ?ps)) @ '']''), w')\<close>
    by (simp only: dumps_matches)
  have "mset ?ps = mset (zip entries ms)"
    by (simp add: mset_sort_lt)
  then have "mset (map snd ?ps) = mset (map snd (zip entries ms))"
    by (metis mset_map)
  then have perm: "mset (map snd ?ps) = mset ms"
    using len by simp
  have l: "length (map snd ?ps) = length entries"
    using perm len by (metis size_mset)
  have ordered: "sorted_wrt (\<lambda>a b. \<not> float_lt (match_score a) (match_score b)) (map snd ?ps) \<and>
      (\<forall>k. filter (\<lambda>m. float_eq (match_score m) k) (map snd ?ps) =
           filter (\<lambda>m. float_eq (match_score m) k) ms)"
    if "NaN \<notin> match_score ` set ms"
  proof -
    have nn: "\<forall>p\<in>set (zip entries ms). ?key p \<noteq> NaN"
    proof
      fix p
      assume "p \<in> set (zip entries ms)"
      then have "snd p \<in> set ms"
        by (metis prod.collapse set_zip_rightD)
      with that show "?key p \<noteq> NaN"
        by force
    qed
    from rev_sort_lt_descending [of "zip entries ms" ?key, OF nn]
    have s: "sorted_wrt (\<lambda>a b. \<not> float_lt (match_score a) (match_score b)) (map snd ?ps)"
      by (simp add: sorted_wrt_map)
    have st: "filter (\<lambda>m. float_eq (match_score m) k) (map snd ?ps) =
        filter (\<lambda>m. float_eq (match_score m) k) ms" for k
    proof -
      have "filter (\<lambda>m. float_eq (match_score m) k) (map snd ?ps) =
            map snd (filter (\<lambda>p. float_eq (?key p) k) ?ps)"
        by (simp add: filter_map comp_def)
      also have "\<dots> = map snd (filter (\<lambda>p. float_eq (?key p) k) (zip entries ms))"
        by (simp only: rev_sort_lt_stable [of "zip entries ms" ?key, OF nn])
      also have "\<dots> = filter (\<lambda>m. float_eq (match_score m) k) (map snd (zip entries ms))"
        by (simp add: filter_map comp_def)
      also have "\<dots> = filter (\<lambda>m. float_eq (match_score m) k) ms"
        using len by simp
      finally show ?thesis .
    qed
    from s st show ?thesis by blast
  qed
  show ?thesis
    by (rule exI [of _ "map snd ?ps"]) (use res l perm ordered in blast)
qed

text \<open>Three entries with the scores 0.6, 1.0 and 0.6, and the text returned.\<close>

theorem search_sorted_stable_witness:
  \<open>list_all2 (provider_entry (provider_env (JObj [(''bestMatches'', JArr example_entries)])))
     example_entries example_matches \<and>
   search_stock_symbol (provider_env (JObj [(''bestMatches'', JArr example_entries)]))
     (JStr ''Apple'') 0 = (Inr example_results_text, 1) \<and>
   (\<exists>results.
      search_stock_symbol (provider_env (JObj [(''bestMatches'', JArr example_entries)]))
        (JStr ''Apple'') 0 =
        (Inr (''['' @ join '', ''
           (map (\<lambda>m. ''{"symbol": '' @ json_dumps example_float_repr (match_symbol m) @
                      '', "name": '' @ json_dumps example_float_repr (match_name m) @
                      '', "region": '' @ json_dumps example_float_repr (match_region m) @
                      '', "score": '' @ float_text example_float_repr (match_score m) @ ''}'')
              results) @ '']''), 1) \<and>
      length results = 3 \<and>
      mset results = mset example_matches \<and>
      sorted_wrt (\<lambda>a b. \<not> float_lt (match_score a) (match_score b)) results \<and>
      (\<forall>k. filter (\<lambda>m. float_eq (match_score m) k) results =
           filter (\<lambda>m. float_eq (match_score m) k) example_matches))\<close>
proof -
  let ?E = "provider_env (JObj [(''bestMatches'', JArr example_entries)])"
  have h1: "requests_get_json ?E (search_url ?E (JStr ''Apple'')) 0 =
      (Inr (JObj [(''bestMatches'', JArr example_entries)]), 1)"
    by (simp add: provider_env_def example_env_def)
  have h2: "map_of [(''bestMatches'', JArr example_entries)] ''bestMatches'' =
      Some (JArr example_entries)"
    by simp
  have h3: "list_all2 (provider_entry ?E) example_entries example_matches"
    by (simp add: example_entries_def example_matches_def provider_env_def example_env_def
        example_float_of_str_def)
  have literal: "search_stock_symbol ?E (JStr ''Apple'') 0 = (Inr example_results_text, 1)"
    by (simp add: search_eval_defs example_entries_def example_results_text_def)
  have facts: "float_repr ?E = example_float_repr" "length example_entries = 3"
    "NaN \<notin> match_score ` set example_matches"
    by (simp_all add: provider_env_def example_env_def example_entries_def example_matches_def)
  from search_sorted_stable [OF h1 h2 h3] facts
  have \<open>\<exists>results.
      search_stock_symbol ?E (JStr ''Apple'') 0 =
        (Inr (''['' @ join '', ''
           (map (\<lambda>m. ''{"symbol": '' @ json_dumps example_float_repr (match_symbol m) @
                      '', "name": '' @ json_dumps example_float_repr (match_name m) @
                      '', "region": '' @ json_dumps example_float_repr (match_region m) @
                      '', "score": '' @ float_text example_float_repr (match_score m) @ ''}'')
              results) @ '']''), 1) \<and>
      length results = 3 \<and>
      mset results = mset example_matches \<and>
      sorted_wrt (\<lambda>a b. \<not> float_lt (match_score a) (match_score b)) results \<and>
      (\<forall>k. filter (\<lambda>m. float_eq (match_score m) k) results =
           filter (\<lambda>m. float_eq (match_score m) k) example_matches)\<close>
    by (simp only: simp_thms)
  with h3 literal show ?thesis
    by (intro conjI)
qed

text \<open>The two zeros are equal as floats and are printed differently: entries with
  the scores -0.0, 0.0 and -0.0 stay in their order.\<close>

lemma zero_scores_keep_order:
  \<open>search_stock_symbol (provider_env (JObj [(''bestMatches'', JArr zero_entries)]))
     (JStr ''Apple'') 0 =
     (Inr (''[{"symbol": "A", "name": "Apple Inc", "region": "United States", "score": -0.0}, ''
         @ ''{"symbol": "B", "name": "Apple Inc", "region": "United States", "score": 0.0}, ''
         @ ''{"symbol": "C", "name": "Apple Inc", "region": "United States", "score": -0.0}]''),
      1)\<close>
  by (simp add: search_eval_defs zero_entries_def)

text \<open>
  C3. When the provider answers with an object that has no \<^verbatim>\<open>bestMatches\<close>, or whose
  \<^verbatim>\<open>bestMatches\<close> is the empty list, \<^verbatim>\<open>search_stock_symbol\<close> returns the text
  \<^verbatim>\<open>[]\<close>, the serialization of the empty list, and raises nothing.
\<close>

theorem search_no_matches_empty:
  fixes E :: "'w env"
  assumes "requests_get_json E (search_url E keywords) w = (Inr (JObj resp), w')"
    and "map_of resp ''bestMatches'' = None \<or> map_of resp ''bestMatches'' = Some (JArr [])"
  shows "search_stock_symbol E keywords w = (Inr ''[]'', w') \<and>
         json_dumps (float_repr E) (JArr []) = ''[]''"
  using assms
  by (auto simp: search_stock_symbol_def search_results_def bind_err_def sorted_reverse_def
        sort_lt_def)

theorem search_no_matches_empty_witness:
  "search_stock_symbol (provider_env (JObj [(''Information'', JStr ''none'')]))
     (JStr ''Zzzznotreal'') 0 = (Inr ''[]'', 1) \<and>
   search_stock_symbol (provider_env (JObj [(''bestMatches'', JArr [])]))
     (JStr ''Zzzznotreal'') 0 = (Inr ''[]'', 1)"
proof -
  let ?A = "provider_env (JObj [(''Information'', JStr ''none'')])"
  let ?B = "provider_env (JObj [(''bestMatches'', JArr [])])"
  have a: "requests_get_json ?A (search_url ?A (JStr ''Zzzznotreal'')) 0 =
      (Inr (JObj [(''Information'', JStr ''none'')]), 1)"
    by (simp add: provider_env_def example_env_def)
  have b: "requests_get_json ?B (search_url ?B (JStr ''Zzzznotreal'')) 0 =
      (Inr (JObj [(''bestMatches'', JArr [])]), 1)"
    by (simp add: provider_env_def example_env_def)
  show ?thesis
    using search_no_matches_empty [OF a] search_no_matches_empty [OF b] by simp
qed

lemma traverse_first_raise:
  "\<forall>y\<in>set before. \<exists>v. f y = Inr v \<Longrightarrow> f x = Inl e \<Longrightarrow>
   traverse f (before @ x # after) = Inl e"
  by (induction before) (auto simp: bind_err_def)

text \<open>
  C9, as the specification states it, fails: the exception is not always a lookup
  error. An entry without symbol whose score is null makes the sorting step raise
  TypeError; an entry without symbol next to an entry whose score is no number makes
  it raise ValueError.
\<close>

theorem lookup_error_counterexample:
  "lacks_field [(''2. name'', JStr ''Apple Inc''), (''4. region'', JStr ''United States''),
                (''9. matchScore'', JNull)] \<and>
   search_stock_symbol (provider_env (JObj [(''bestMatches'', JArr null_score_entries)]))
     (JStr ''Apple'') 0 = (Inl TypeError, 1) \<and>
   lacks_field [(''2. name'', JStr ''Apple Inc''), (''4. region'', JStr ''United States''),
                (''9. matchScore'', JStr ''1.0000'')] \<and>
   search_stock_symbol (provider_env (JObj [(''bestMatches'', JArr text_score_entries)]))
     (JStr ''Apple'') 0 = (Inl ValueError, 1)"
  by (simp add: search_eval_defs lacks_field_def null_score_entries_def text_score_entries_def)

text \<open>
  C9, as the code has it. When the match list holds a dict that lacks \<^verbatim>\<open>1. symbol\<close>,
  \<^verbatim>\<open>2. name\<close>, \<^verbatim>\<open>4. region\<close> or \<^verbatim>\<open>9. matchScore\<close>, \<^verbatim>\<open>search_stock_symbol\<close>
  raises and returns no result. The sort key of a dict without match score is
  \<^verbatim>\<open>float(0)\<close>, so the sorting step does not fail on it. When the sorting step
  computes the key of every entry, the exception raised is KeyError; otherwise it is
  the exception of the sort key of the first entry, in the order of the provider, on
  which the key fails.
\<close>

theorem search_missing_field_raises:
  fixes E :: "'w env"
  assumes fetch: "requests_get_json E (search_url E keywords) w = (Inr (JObj resp), w')"
    and best: "map_of resp ''bestMatches'' = Some (JArr entries)"
    and entry: "JObj kvs \<in> set entries"
    and lacks: "lacks_field kvs"
  shows "(\<exists>e. search_stock_symbol E keywords w = (Inl e, w')) \<and>
         (map_of kvs ''9. matchScore'' = None \<longrightarrow>
            match_score_key E (JObj kvs) = Inr (Finite 0)) \<and>
         ((\<forall>x\<in>set entries. \<exists>f. match_score_key E x = Inr f) \<longrightarrow>
            search_stock_symbol E keywords w = (Inl KeyError, w')) \<and>
         (entries = before @ x # after \<and>
          (\<forall>y\<in>set before. \<exists>f. match_score_key E y = Inr f) \<and>
          match_score_key E x = Inl e \<longrightarrow>
            search_stock_symbol E keywords w = (Inl e, w'))"
proof -
  have unfold: "search_stock_symbol E keywords w =
      (bind_err (sorted_reverse (match_score_key E) entries) (\<lambda>matches.
         bind_err (traverse (format_match E) matches) (\<lambda>results.
           Inr (json_dumps (float_repr E) (JArr (map symbol_match_dict results))))), w')"
    by (simp add: search_stock_symbol_def fetch search_results_def best bind_err_def
          del: json_dumps.simps)
  have bad: "format_match E (JObj kvs) = Inl KeyError"
    using lacks by (rule format_match_lacking)
  have raises: "\<exists>e. search_stock_symbol E keywords w = (Inl e, w')"
  proof (cases "sorted_reverse (match_score_key E) entries")
    case (Inl e)
    then show ?thesis by (simp add: unfold bind_err_def)
  next
    case (Inr matches)
    then have "JObj kvs \<in> set matches"
      using entry by (simp add: sorted_reverse_set)
    from traverse_raises [where f = "format_match E", OF this bad]
    obtain e where "traverse (format_match E) matches = Inl e"
      by (rule exE)
    then show ?thesis by (simp add: unfold Inr bind_err_def)
  qed
  have default: "map_of kvs ''9. matchScore'' = None \<longrightarrow>
      match_score_key E (JObj kvs) = Inr (Finite 0)"
    by (simp add: match_score_key_def bind_err_def)
  have key_error: "search_stock_symbol E keywords w = (Inl KeyError, w')"
    if keys: "\<forall>x\<in>set entries. \<exists>f. match_score_key E x = Inr f"
  proof (cases "sorted_reverse (match_score_key E) entries")
    case (Inl e)
    then have "traverse (match_score_key E) entries = Inl e"
      by (simp only: sorted_reverse_raises)
    from traverse_Inl_elem [OF this]
    obtain x where x: "x \<in> set entries" and "match_score_key E x = Inl e"
      by (rule bexE)
    moreover from keys x obtain f where "match_score_key E x = Inr f"
      by (auto simp only:)
    ultimately show ?thesis by simp
  next
    case (Inr matches)
    then have m: "set matches = set entries"
      by (rule sorted_reverse_set)
    then have "JObj kvs \<in> set matches"
      using entry by simp
    from traverse_raises [where f = "format_match E", OF this bad]
    obtain e where e: "traverse (format_match E) matches = Inl e"
      by (rule exE)
    from traverse_Inl_elem [OF e]
    obtain x where x: "x \<in> set matches" "format_match E x = Inl e"
      by (rule bexE)
    from x(1) m have "x \<in> set entries"
      by simp
    with keys obtain f where "match_score_key E x = Inr f"
      by (auto simp only:)
    from format_match_after_key [OF this x(2)] have "e = KeyError" .
    then show ?thesis by (simp add: unfold Inr e bind_err_def)
  qed
  have sort_error: "search_stock_symbol E keywords w = (Inl e, w')"
    if "entries = before @ x # after"
      "\<forall>y\<in>set before. \<exists>f. match_score_key E y = Inr f"
      "match_score_key E x = Inl e"
  proof -
    from traverse_first_raise [OF that(2,3)] that(1)
    have "traverse (match_score_key E) entries = Inl e"
      by simp
    then have "sorted_reverse (match_score_key E) entries = Inl e"
      by (simp only: sorted_reverse_raises)
    then show ?thesis by (simp add: unfold bind_err_def)
  qed
  from raises default key_error sort_error show ?thesis by blast
qed

text \<open>A complete entry and one without match score; and the entry without symbol next
  to the entry whose score is no number.\<close>

theorem search_missing_field_raises_witness:
  "lacks_field ([(''1. symbol'', JStr ''APLE''), (''2. name'', JStr ''Apple Hospitality REIT Inc''),
                 (''4. region'', JStr ''United States'')] :: (string \<times> json) list) \<and>
   map (match_score_key (provider_env (JObj [(''bestMatches'', JArr incomplete_entries)])))
     incomplete_entries = [Inr (Finite 1), Inr (Finite 0)] \<and>
   search_stock_symbol (provider_env (JObj [(''bestMatches'', JArr incomplete_entries)]))
     (JStr ''Apple'') 0 = (Inl KeyError, 1) \<and>
   map (match_score_key (provider_env (JObj [(''bestMatches'', JArr text_score_entries)])))
     text_score_entries = [Inr (Finite 1), Inl ValueError] \<and>
   search_stock_symbol (provider_env (JObj [(''bestMatches'', JArr text_score_entries)]))
     (JStr ''Apple'') 0 = (Inl ValueError, 1)"
proof -
  let ?E = "provider_env (JObj [(''bestMatches'', JArr incomplete_entries)])"
  let ?kvs = "[(''1. symbol'', JStr ''APLE''), (''2. name'', JStr ''Apple Hospitality REIT Inc''),
               (''4. region'', JStr ''United States'')] :: (string \<times> json) list"
  have h1: "requests_get_json ?E (search_url ?E (JStr ''Apple'')) 0 =
      (Inr (JObj [(''bestMatches'', JArr incomplete_entries)]), 1)"
    by (simp add: provider_env_def example_env_def)
  have h2: "map_of [(''bestMatches'', JArr incomplete_entries)] ''bestMatches'' =
      Some (JArr incomplete_entries)"
    by simp
  have h3: "JObj ?kvs \<in> set incomplete_entries"
    by (simp add: incomplete_entries_def)
  have h4: "lacks_field ?kvs"
    by (simp add: lacks_field_def)
  have keys: "map (match_score_key ?E) incomplete_entries = [Inr (Finite 1), Inr (Finite 0)]"
    by (simp add: incomplete_entries_def match_score_key_def bind_err_def provider_env_def
        example_env_def example_float_of_str_def)
  have h5: "\<forall>x\<in>set incomplete_entries. \<exists>f. match_score_key ?E x = Inr f"
    by (simp add: incomplete_entries_def match_score_key_def bind_err_def provider_env_def
        example_env_def example_float_of_str_def)
  note k = search_missing_field_raises
    [OF h1 h2 h3 h4, THEN conjunct2, THEN conjunct2, THEN conjunct1, THEN mp, OF h5]
  let ?F = "provider_env (JObj [(''bestMatches'', JArr text_score_entries)])"
  let ?first = "JObj [(''2. name'', JStr ''Apple Inc''), (''4. region'', JStr ''United States''),
                      (''9. matchScore'', JStr ''1.0000'')]"
  let ?lvs = "[(''2. name'', JStr ''Apple Inc''), (''4. region'', JStr ''United States''),
               (''9. matchScore'', JStr ''1.0000'')] :: (string \<times> json) list"
  have g1: "requests_get_json ?F (search_url ?F (JStr ''Apple'')) 0 =
      (Inr (JObj [(''bestMatches'', JArr text_score_entries)]), 1)"
    by (simp add: provider_env_def example_env_def)
  have g2: "map_of [(''bestMatches'', JArr text_score_entries)] ''bestMatches'' =
      Some (JArr text_score_entries)"
    by simp
  have g3: "JObj ?lvs \<in> set text_score_entries"
    by (simp add: text_score_entries_def)
  have g4: "lacks_field ?lvs"
    by (simp add: lacks_field_def)
  have fkeys: "map (match_score_key ?F) text_score_entries = [Inr (Finite 1), Inl ValueError]"
    by (simp add: text_score_entries_def scored_entry_def match_score_key_def bind_err_def
        provider_env_def example_env_def example_float_of_str_def)
  have g5: "text_score_entries = [?first] @ scored_entry ''B'' (JStr ''n/a'') # [] \<and>
      (\<forall>y\<in>set [?first]. \<exists>f. match_score_key ?F y = Inr f) \<and>
      match_score_key ?F (scored_entry ''B'' (JStr ''n/a'')) = Inl ValueError"
    by (simp add: text_score_entries_def scored_entry_def match_score_key_def bind_err_def
        provider_env_def example_env_def example_float_of_str_def)
  note v = search_missing_field_raises
    [where before = "[?first]" and x = "scored_entry ''B'' (JStr ''n/a'')" and after = "[]"
       and e = ValueError,
     OF g1 g2 g3 g4, THEN conjunct2, THEN conjunct2, THEN conjunct2, THEN mp, OF g5]
  show ?thesis
    by (rule conjI [OF h4 conjI [OF keys conjI [OF k conjI [OF fkeys v]]]])
qed

subsection \<open>Claims on \<^verbatim>\<open>get_stock_price\<close>\<close>

text \<open>
  C4. When the provider answers with an object that has no \<^verbatim>\<open>Global Quote\<close>,
  \<^verbatim>\<open>get_stock_price\<close> returns the serialization of
  \<^verbatim>\<open>{"error": "No price data available"}\<close> and raises nothing.
\<close>

theorem quote_missing_error_marker:
  assumes "requests_get_json E (quote_url E symbol) w = (Inr (JObj resp), w')"
    and "map_of resp ''Global Quote'' = None"
  shows \<open>get_stock_price E symbol w = (Inr ''{"error": "No price data available"}'', w')\<close>
  using assms
  by (simp add: get_stock_price_def quote_results_def bind_err_def dumps_error_marker)

theorem quote_missing_error_marker_witness:
  \<open>get_stock_price (provider_env (JObj [(''Note'', JStr ''rate limit'')])) (JStr ''AAPL'') 0 =
     (Inr ''{"error": "No price data available"}'', 1)\<close>
proof -
  let ?E = "provider_env (JObj [(''Note'', JStr ''rate limit'')])"
  have h: "requests_get_json ?E (quote_url ?E (JStr ''AAPL'')) 0 =
      (Inr (JObj [(''Note'', JStr ''rate limit'')]), 1)"
    by (simp add: provider_env_def example_env_def)
  show ?thesis
    using quote_missing_error_marker [OF h] by simp
qed

text \<open>
  C10. For an object answered by the provider, \<^verbatim>\<open>get_stock_price\<close> returns the
  error marker exactly when the key \<^verbatim>\<open>Global Quote\<close> is absent. When the key is
  present with a dict, the result is the quote record in which each field is the
  subfield's value, or null where the subfield is missing: for the empty dict, and
  for any dict without the four subfields, all four fields are null.
\<close>

theorem quote_error_marker_iff_absent:
  assumes fetch: "requests_get_json E (quote_url E symbol) w = (Inr (JObj resp), w')"
  shows "(get_stock_price E symbol w = (Inr (json_dumps (float_repr E) error_marker), w')
            \<longleftrightarrow> map_of resp ''Global Quote'' = None) \<and>
         (map_of resp ''Global Quote'' = Some (JObj quote) \<longrightarrow>
            get_stock_price E symbol w =
              (Inr (json_dumps (float_repr E)
                 (JObj [(''symbol'', case_option JNull id (map_of quote ''01. symbol'')),
                        (''price'', case_option JNull id (map_of quote ''05. price'')),
                        (''change'', case_option JNull id (map_of quote ''09. change'')),
                        (''change_percent'',
                         case_option JNull id (map_of quote ''10. change percent''))])), w')) \<and>
         (map_of resp ''Global Quote'' = Some (JObj quote) \<and>
             map_of quote ''01. symbol'' = None \<and> map_of quote ''05. price'' = None \<and>
             map_of quote ''09. change'' = None \<and> map_of quote ''10. change percent'' = None \<longrightarrow>
            get_stock_price E symbol w = (Inr (json_dumps (float_repr E) null_quote), w') \<and>
            json_dumps (float_repr E) null_quote \<noteq> json_dumps (float_repr E) error_marker)"
proof -
  have unfold: "get_stock_price E symbol w = (quote_results E (JObj resp), w')"
    by (simp add: get_stock_price_def fetch)
  have absent: "quote_results E (JObj resp) = Inr (json_dumps (float_repr E) error_marker)"
    if "map_of resp ''Global Quote'' = None"
    using that by (simp add: quote_results_def bind_err_def)
  have present: "quote_results E (JObj resp) =
      Inr (json_dumps (float_repr E)
        (JObj [(''symbol'', case_option JNull id (map_of quote ''01. symbol'')),
               (''price'', case_option JNull id (map_of quote ''05. price'')),
               (''change'', case_option JNull id (map_of quote ''09. change'')),
               (''change_percent'', case_option JNull id (map_of quote ''10. change percent''))]))"
    if "map_of resp ''Global Quote'' = Some (JObj quote)" for quote
    using that
    by (simp add: quote_results_def bind_err_def del: json_dumps.simps split: option.splits)
  have other: "quote_results E (JObj resp) \<noteq> Inr (json_dumps (float_repr E) error_marker)"
    if "map_of resp ''Global Quote'' = Some v" for v
  proof (cases v)
    case (JObj quote)
    with that present dumps_quote_not_error_marker show ?thesis
      by (metis Inr_inject)
  qed (use that in \<open>simp_all add: quote_results_def bind_err_def del: json_dumps.simps\<close>)
  have iff: "get_stock_price E symbol w = (Inr (json_dumps (float_repr E) error_marker), w')
      \<longleftrightarrow> map_of resp ''Global Quote'' = None"
    using absent other by (cases "map_of resp ''Global Quote''") (auto simp: unfold)
  have nulls: "get_stock_price E symbol w = (Inr (json_dumps (float_repr E) null_quote), w') \<and>
      json_dumps (float_repr E) null_quote \<noteq> json_dumps (float_repr E) error_marker"
    if "map_of resp ''Global Quote'' = Some (JObj quote)"
      "map_of quote ''01. symbol'' = None" "map_of quote ''05. price'' = None"
      "map_of quote ''09. change'' = None" "map_of quote ''10. change percent'' = None"
    for quote
    using present [OF that(1)] that(2-) dumps_quote_not_error_marker [of "float_repr E"]
    by (simp add: unfold null_quote_def del: json_dumps.simps)
  have general: "map_of resp ''Global Quote'' = Some (JObj quote) \<longrightarrow>
      get_stock_price E symbol w =
        (Inr (json_dumps (float_repr E)
           (JObj [(''symbol'', case_option JNull id (map_of quote ''01. symbol'')),
                  (''price'', case_option JNull id (map_of quote ''05. price'')),
                  (''change'', case_option JNull id (map_of quote ''09. change'')),
                  (''change_percent'',
                   case_option JNull id (map_of quote ''10. change percent''))])), w')"
  proof (intro impI)
    assume a: "map_of resp ''Global Quote'' = Some (JObj quote)"
    show "get_stock_price E symbol w =
        (Inr (json_dumps (float_repr E)
           (JObj [(''symbol'', case_option JNull id (map_of quote ''01. symbol'')),
                  (''price'', case_option JNull id (map_of quote ''05. price'')),
                  (''change'', case_option JNull id (map_of quote ''09. change'')),
                  (''change_percent'',
                   case_option JNull id (map_of quote ''10. change percent''))])), w')"
      unfolding unfold by (simp only: present [OF a])
  qed
  from nulls [of quote] have nulls': "map_of resp ''Global Quote'' = Some (JObj quote) \<and>
       map_of quote ''01. symbol'' = None \<and> map_of quote ''05. price'' = None \<and>
       map_of quote ''09. change'' = None \<and> map_of quote ''10. change percent'' = None \<longrightarrow>
      get_stock_price E symbol w = (Inr (json_dumps (float_repr E) null_quote), w') \<and>
      json_dumps (float_repr E) null_quote \<noteq> json_dumps (float_repr E) error_marker"
    by (intro impI) (elim conjE)
  show ?thesis
    by (rule conjI [OF iff conjI [OF general nulls']])
qed

text \<open>The answer of the provider for an unknown symbol: an empty quote.\<close>

theorem quote_error_marker_iff_absent_witness:
  \<open>get_stock_price (provider_env (JObj [(''Global Quote'', JObj [])])) (JStr ''ZZZZ'') 0 =
     (Inr ''{"symbol": null, "price": null, "change": null, "change_percent": null}'', 1)\<close>
proof -
  let ?E = "provider_env (JObj [(''Global Quote'', JObj [])])"
  have h: "requests_get_json ?E (quote_url ?E (JStr ''ZZZZ'')) 0 =
      (Inr (JObj [(''Global Quote'', JObj [])]), 1)"
    by (simp add: provider_env_def example_env_def)
  have pre: "map_of [(''Global Quote'', JObj [])] ''Global Quote'' = Some (JObj ([] :: (string \<times> json) list)) \<and>
      map_of ([] :: (string \<times> json) list) ''01. symbol'' = None \<and>
      map_of ([] :: (string \<times> json) list) ''05. price'' = None \<and>
      map_of ([] :: (string \<times> json) list) ''09. change'' = None \<and>
      map_of ([] :: (string \<times> json) list) ''10. change percent'' = None"
    by simp
  note t = quote_error_marker_iff_absent
    [OF h, where quote = "[]", THEN conjunct2, THEN conjunct2, THEN mp, OF pre, THEN conjunct1]
  then show ?thesis
    by (simp only: dumps_null_quote)
qed


section \<open>Properties of the chat helper functions\<close>

subsection \<open>\<^verbatim>\<open>process_stream\<close>\<close>

lemma stream_step_result:
  "stream_step st c =
     (if choices c = [] then Inl IndexError
      else Inr \<lparr>full_text = full_text st @ fragment_text c,
                acc_tool_calls = acc_tool_calls st @ fragment_tool_calls c,
                printed = printed st @ filter (\<lambda>t. t \<noteq> []) [fragment_text c]\<rparr>)"
  by (cases st)
     (simp add: stream_step_def fragment_text_def fragment_tool_calls_def Let_def
           split: list.splits option.splits)

lemma stream_loop_result:
  "stream_loop st cs =
     (if list_all (\<lambda>c. choices c \<noteq> []) cs then
        Inr \<lparr>full_text = full_text st @ concat (map fragment_text cs),
             acc_tool_calls = acc_tool_calls st @ concat (map fragment_tool_calls cs),
             printed = printed st @ filter (\<lambda>t. t \<noteq> []) (map fragment_text cs)\<rparr>
      else Inl IndexError)"
proof (induction cs arbitrary: st)
  case Nil
  show ?case by simp
next
  case (Cons c cs)
  show ?case
    by (simp add: stream_step_result bind_err_def Cons.IH)
qed

text \<open>
  C5. \<^verbatim>\<open>process_stream\<close> raises IndexError when a fragment has no choice.
  Otherwise it returns the assistant message whose content is the concatenation, in
  arrival order, of the texts of the fragments and whose tool calls are the
  concatenation, in arrival order, of the tool calls of the fragments; what it prints
  is the sequence of the texts that are not empty.
\<close>

theorem process_stream_concat:
  "process_stream response =
     (if list_all (\<lambda>c. choices c \<noteq> []) response then
        Inr (filter (\<lambda>t. t \<noteq> []) (map fragment_text response),
             \<lparr>role = Assistant,
              content = concat (map fragment_text response),
              tool_calls = Some (concat (map fragment_tool_calls response)),
              tool_call_id = None\<rparr>)
      else Inl IndexError)"
  by (simp add: process_stream_def stream_loop_result bind_err_def)

text \<open>A stream of four fragments: text, two tool calls, an empty delta, text.\<close>

theorem process_stream_concat_witness:
  "process_stream
     [text_chunk ''Looking '', calls_chunk [search_call ''call_a'', price_call ''call_b''],
      \<lparr>choices = [\<lparr>delta_content = None, delta_tool_calls = None\<rparr>]\<rparr>, text_chunk ''up'']
   = Inr ([''Looking '', ''up''],
          \<lparr>role = Assistant, content = ''Looking up'',
           tool_calls = Some [search_call ''call_a'', price_call ''call_b''],
           tool_call_id = None\<rparr>)"
  using process_stream_concat
    [of "[text_chunk ''Looking '', calls_chunk [search_call ''call_a'', price_call ''call_b''],
          \<lparr>choices = [\<lparr>delta_content = None, delta_tool_calls = None\<rparr>]\<rparr>, text_chunk ''up'']"]
  by (simp add: text_chunk_def calls_chunk_def fragment_text_def fragment_tool_calls_def)

subsection \<open>\<^verbatim>\<open>process_tool_calls\<close>\<close>

text \<open>The loop on a list of tool calls in two parts.\<close>

lemma tool_calls_loop_append:
  "tool_calls_loop E registry (xs @ ys) ms w =
     (case tool_calls_loop E registry xs ms w of
        (None, ms', w') \<Rightarrow> tool_calls_loop E registry ys ms' w'
      | (Some e, ms', w') \<Rightarrow> (Some e, ms', w'))"
proof (induction xs arbitrary: ms w)
  case Nil
  show ?case by simp
next
  case (Cons tc xs)
  show ?case
    by (simp add: Cons.IH split: option.splits sum.splits prod.splits)
qed

lemma tool_calls_loop_unknown:
  "registry (fn_name tc) = None \<Longrightarrow>
   tool_calls_loop E registry (tc # tcs) ms w = tool_calls_loop E registry tcs ms w"
  by simp

lemma tool_calls_loop_undecodable:
  assumes "registry (fn_name tc) = Some f" and "\<not> decodes_to_mapping E (fn_arguments tc)"
  shows "tool_calls_loop E registry (tc # tcs) ms w =
         (Some (if json_loads E (fn_arguments tc) = None then JSONDecodeError else TypeError),
          ms, w)"
  using assms
  by (auto simp: decodes_to_mapping_def call_with_kwargs_def split: option.splits json.splits)

text \<open>
  C6. A tool call whose function name is not in the registry changes nothing: the
  dispatcher gives the same outcome, the same message list and the same world as on
  the response without that tool call, whatever precedes and follows it; alone, it
  leaves the message list as it was and raises nothing.
\<close>

theorem unknown_tool_skipped:
  assumes "registry (fn_name tc) = None"
    and "requested_calls response = before @ tc # after"
    and "requested_calls response' = before @ after"
  shows "process_tool_calls E response ms registry w =
           process_tool_calls E response' ms registry w \<and>
         tool_calls_loop E registry [tc] ms w = (None, ms, w)"
  using assms
  by (simp add: process_tool_calls_def tool_calls_loop_append split: prod.splits option.splits)

theorem unknown_tool_skipped_witness:
  "available_functions two_calls_env (fn_name (weather_call ''call_x'')) = None \<and>
   process_tool_calls two_calls_env
     (assistant_requests [search_call ''call_a'', weather_call ''call_x'', price_call ''call_b''])
     [] (available_functions two_calls_env) 0 =
   process_tool_calls two_calls_env
     (assistant_requests [search_call ''call_a'', price_call ''call_b''])
     [] (available_functions two_calls_env) 0 \<and>
   tool_calls_loop two_calls_env (available_functions two_calls_env) [weather_call ''call_x''] [] 0
     = (None, [], 0)"
proof -
  have h1: "available_functions two_calls_env (fn_name (weather_call ''call_x'')) = None"
    by (simp add: available_functions_def weather_call_def)
  have h2: "requested_calls
      (assistant_requests [search_call ''call_a'', weather_call ''call_x'', price_call ''call_b''])
      = [search_call ''call_a''] @ weather_call ''call_x'' # [price_call ''call_b'']"
    by (simp add: requested_calls_def assistant_requests_def)
  have h3: "requested_calls (assistant_requests [search_call ''call_a'', price_call ''call_b''])
      = [search_call ''call_a''] @ [price_call ''call_b'']"
    by (simp add: requested_calls_def assistant_requests_def)
  show ?thesis
    by (rule conjI [OF h1 unknown_tool_skipped
          [where registry = "available_functions two_calls_env" and tc = "weather_call ''call_x''"
             and E = two_calls_env and ms = "[]" and w = 0,
           OF h1 h2 h3]])
qed

text \<open>
  C7. When the function name of a tool call is in the registry and its argument text
  does not decode to a key-value mapping, the dispatcher raises: JSONDecodeError when
  the text does not decode, TypeError when it decodes to something else. The message
  list is the one reached after the tool calls that precede it, so it holds no
  message for this tool call, and the tool calls that follow are not processed.
\<close>

theorem undecodable_arguments_raise:
  assumes "registry (fn_name tc) = Some f"
    and "\<not> decodes_to_mapping E (fn_arguments tc)"
    and "requested_calls response = before @ tc # after"
    and "tool_calls_loop E registry before ms w = (None, ms', w')"
  shows "process_tool_calls E response ms registry w =
           (Some (if json_loads E (fn_arguments tc) = None then JSONDecodeError else TypeError),
            ms', w')"
  using assms
  by (simp add: process_tool_calls_def tool_calls_loop_append tool_calls_loop_undecodable
        del: tool_calls_loop.simps)

lemma search_call_answered:
  "tool_calls_loop two_calls_env (available_functions two_calls_env) [search_call ''call_a''] [] 0
     = (None, [tool_message ''call_a'' ''[]''], 1)"
  by (simp add: available_functions_def search_call_def two_calls_env_def example_env_def
      example_json_loads_def call_with_kwargs_def bind_keyword_def search_stock_symbol_def
      search_results_def bind_err_def tool_message_def)

theorem undecodable_arguments_raise_witness:
  "\<not> decodes_to_mapping two_calls_env (fn_arguments (list_call ''call_x'')) \<and>
   \<not> decodes_to_mapping two_calls_env (fn_arguments (broken_call ''call_x'')) \<and>
   process_tool_calls two_calls_env
     (assistant_requests [search_call ''call_a'', list_call ''call_x'', price_call ''call_b''])
     [] (available_functions two_calls_env) 0 =
     (Some TypeError, [tool_message ''call_a'' ''[]''], 1) \<and>
   process_tool_calls two_calls_env
     (assistant_requests [search_call ''call_a'', broken_call ''call_x'', price_call ''call_b''])
     [] (available_functions two_calls_env) 0 =
     (Some JSONDecodeError, [tool_message ''call_a'' ''[]''], 1)"
proof -
  let ?f = "bind_keyword ''symbol'' (get_stock_price two_calls_env)"
  have l1: "available_functions two_calls_env (fn_name (list_call ''call_x'')) = Some ?f"
    by (simp add: available_functions_def list_call_def)
  have b1: "available_functions two_calls_env (fn_name (broken_call ''call_x'')) = Some ?f"
    by (simp add: available_functions_def broken_call_def)
  have l2: "\<not> decodes_to_mapping two_calls_env (fn_arguments (list_call ''call_x''))"
    by (simp add: decodes_to_mapping_def list_call_def two_calls_env_def example_env_def
        example_json_loads_def)
  have b2: "\<not> decodes_to_mapping two_calls_env (fn_arguments (broken_call ''call_x''))"
    by (simp add: decodes_to_mapping_def broken_call_def two_calls_env_def example_env_def
        example_json_loads_def)
  have l3: "requested_calls
      (assistant_requests [search_call ''call_a'', list_call ''call_x'', price_call ''call_b''])
      = [search_call ''call_a''] @ list_call ''call_x'' # [price_call ''call_b'']"
    by (simp add: requested_calls_def assistant_requests_def)
  have b3: "requested_calls
      (assistant_requests [search_call ''call_a'', broken_call ''call_x'', price_call ''call_b''])
      = [search_call ''call_a''] @ broken_call ''call_x'' # [price_call ''call_b'']"
    by (simp add: requested_calls_def assistant_requests_def)
  have l5: "json_loads two_calls_env (fn_arguments (list_call ''call_x'')) \<noteq> None"
    by (simp add: list_call_def two_calls_env_def example_env_def example_json_loads_def)
  have b5: "json_loads two_calls_env (fn_arguments (broken_call ''call_x'')) = None"
    by (simp add: broken_call_def two_calls_env_def example_env_def example_json_loads_def)
  have l: "process_tool_calls two_calls_env
      (assistant_requests [search_call ''call_a'', list_call ''call_x'', price_call ''call_b''])
      [] (available_functions two_calls_env) 0 =
      (Some TypeError, [tool_message ''call_a'' ''[]''], 1)"
    using undecodable_arguments_raise
        [where registry = "available_functions two_calls_env" and tc = "list_call ''call_x''",
         OF l1 l2 l3 search_call_answered] l5
    by simp
  have b: "process_tool_calls two_calls_env
      (assistant_requests [search_call ''call_a'', broken_call ''call_x'', price_call ''call_b''])
      [] (available_functions two_calls_env) 0 =
      (Some JSONDecodeError, [tool_message ''call_a'' ''[]''], 1)"
    using undecodable_arguments_raise
        [where registry = "available_functions two_calls_env" and tc = "broken_call ''call_x''",
         OF b1 b2 b3 search_call_answered] b5
    by simp
  show ?thesis
    by (rule conjI [OF l2 conjI [OF b2 conjI [OF l b]]])
qed


section \<open>Properties of the main flow\<close>

subsection \<open>What the dispatcher appends\<close>

lemma tool_calls_loop_prefix:
  "tool_calls_loop E registry tcs ms w = (r, ms', w') \<Longrightarrow> prefix ms ms'"
proof (induction tcs arbitrary: ms w)
  case Nil
  then show ?case by simp
next
  case (Cons tc tcs)
  then show ?case
    by (auto split: option.splits prod.splits sum.splits dest: append_prefixD)
qed

lemma tool_replies_Cons:
  "tool_replies tcs replies \<Longrightarrow>
   tool_replies (tc # tcs)
     (\<lparr>role = Tool, content = body, tool_calls = None, tool_call_id = Some (tc_id tc)\<rparr> # replies)"
  by (simp add: tool_replies_def)

lemma tool_calls_loop_replies:
  "tool_calls_loop E registry tcs ms w = (None, ms', w') \<Longrightarrow>
   \<exists>replies. ms' = ms @ replies \<and>
     tool_replies (filter (\<lambda>tc. registry (fn_name tc) \<noteq> None) tcs) replies"
proof (induction tcs arbitrary: ms w)
  case Nil
  then show ?case by (simp add: tool_replies_def)
next
  case (Cons tc tcs)
  show ?case
  proof (cases "registry (fn_name tc)")
    case None
    with Cons show ?thesis by simp
  next
    case (Some f)
    with Cons.prems obtain args body w1 where
      "json_loads E (fn_arguments tc) = Some args"
      "call_with_kwargs f args w = (Inr body, w1)"
      and rest: "tool_calls_loop E registry tcs
          (ms @ [\<lparr>role = Tool, content = body, tool_calls = None,
                  tool_call_id = Some (tc_id tc)\<rparr>]) w1 = (None, ms', w')"
      by (auto split: option.splits prod.splits sum.splits)
    from Cons.IH [OF rest] obtain replies where
      "ms' = (ms @ [\<lparr>role = Tool, content = body, tool_calls = None,
                     tool_call_id = Some (tc_id tc)\<rparr>]) @ replies"
      and "tool_replies (filter (\<lambda>tc. registry (fn_name tc) \<noteq> None) tcs) replies"
      by blast
    then show ?thesis
      using Some tool_replies_Cons [of _ replies tc body]
      by (intro exI [of _ "\<lparr>role = Tool, content = body, tool_calls = None,
                     tool_call_id = Some (tc_id tc)\<rparr> # replies"]) simp
  qed
qed

subsection \<open>The steps of a session\<close>

lemma process_stream_role:
  "process_stream response = Inr (out, m) \<Longrightarrow> role m = Assistant"
  by (auto simp: process_stream_def bind_err_def split: sum.splits)

lemma call_model_state:
  "call_model E s = (r, s') \<Longrightarrow>
   messages s' = messages s \<and> model_calls s' = model_calls s @ [messages s]"
  by (auto simp: call_model_def split: prod.splits sum.splits)

lemma call_model_role:
  "call_model E s = (Inr m, s') \<Longrightarrow> role m = Assistant"
  by (auto simp: call_model_def get_model_response_def split: prod.splits sum.splits
        dest: process_stream_role)

lemma ask_state:
  "ask E prompt s = (r, s') \<Longrightarrow> messages s' = messages s \<and> model_calls s' = model_calls s"
  by (auto simp: ask_def split: prod.splits)

lemma append_message_state:
  "messages (append_message m s) = messages s @ [m] \<and>
   model_calls (append_message m s) = model_calls s"
  by (simp add: append_message_def)

lemma dispatch_state:
  "dispatch E response s = (r, s') \<Longrightarrow>
   model_calls s' = model_calls s \<and> prefix (messages s) (messages s')"
  by (auto simp: dispatch_def process_tool_calls_def split: prod.splits
        dest: tool_calls_loop_prefix)

lemma dispatch_replies:
  "dispatch E response s = (None, s') \<Longrightarrow>
   \<exists>replies. messages s' = messages s @ replies \<and>
     tool_replies (registered_calls (available_functions E) response) replies"
  by (auto simp: dispatch_def process_tool_calls_def registered_calls_def split: prod.splits
        dest: tool_calls_loop_replies)


subsection \<open>The three assistant calls\<close>

lemma first_assistant_call_effect:
  assumes "first_assistant_call E s = (r, s')"
  shows "model_calls s' = model_calls s @ [messages s]"
    and "prefix (messages s) (messages s')"
    and "r = None \<Longrightarrow>
         \<exists>a replies. messages s' = messages s @ a # replies \<and> role a = Assistant \<and>
           tool_replies (registered_calls (available_functions E) a) replies"
proof -
  obtain x s1 where cm: "call_model E s = (x, s1)"
    by (cases "call_model E s")
  note st = call_model_state [OF cm]
  show "model_calls s' = model_calls s @ [messages s]"
    using assms cm st
    by (cases x) (auto simp: first_assistant_call_def append_message_def dest: dispatch_state)
  show "prefix (messages s) (messages s')"
    using assms cm st
    by (cases x)
       (auto simp: first_assistant_call_def append_message_def
             dest!: dispatch_state dest: append_prefixD)
  show "\<exists>a replies. messages s' = messages s @ a # replies \<and> role a = Assistant \<and>
      tool_replies (registered_calls (available_functions E) a) replies" if "r = None"
  proof (cases x)
    case (Inl e)
    with assms cm that show ?thesis
      by (simp add: first_assistant_call_def)
  next
    case (Inr a)
    with assms cm that have "dispatch E a (append_message a s1) = (None, s')"
      by (simp add: first_assistant_call_def)
    from dispatch_replies [OF this] obtain replies where
      "messages s' = messages (append_message a s1) @ replies"
      "tool_replies (registered_calls (available_functions E) a) replies"
      by blast
    moreover have "role a = Assistant"
      using cm Inr call_model_role by blast
    ultimately show ?thesis
      using st by (simp add: append_message_def)
  qed
qed

lemma second_assistant_call_effect:
  assumes "second_assistant_call E s = (r, s')"
  shows "model_calls s' = model_calls s @ [messages s]"
    and "prefix (messages s) (messages s')"
proof -
  obtain x s1 where cm: "call_model E s = (x, s1)"
    by (cases "call_model E s")
  note st = call_model_state [OF cm]
  show "model_calls s' = model_calls s @ [messages s]"
    using assms cm st
    by (cases x)
       (auto simp: second_assistant_call_def append_message_def
             split: prod.splits sum.splits dest!: ask_state)
  show "prefix (messages s) (messages s')"
    using assms cm st
    by (cases x)
       (auto simp: second_assistant_call_def append_message_def
             split: prod.splits sum.splits dest!: ask_state)
qed

lemma third_assistant_call_effect:
  assumes "third_assistant_call E s = (r, s')"
  shows "(model_calls s' = model_calls s @ [messages s] \<and> prefix (messages s) (messages s')) \<or>
         (\<exists>a replies. model_calls s' = model_calls s @ [messages s, messages s @ a # replies] \<and>
            messages s' = messages s @ a # replies \<and> role a = Assistant \<and>
            tool_replies (registered_calls (available_functions E) a) replies)"
proof -
  obtain x s1 where cm: "call_model E s = (x, s1)"
    by (cases "call_model E s")
  note st = call_model_state [OF cm]
  show ?thesis
  proof (cases x)
    case (Inl e)
    with assms cm st show ?thesis
      by (simp add: third_assistant_call_def)
  next
    case (Inr a)
    let ?s2 = "append_message a s1"
    have s2: "messages ?s2 = messages s @ [a]" "model_calls ?s2 = model_calls s @ [messages s]"
      using st by (simp_all add: append_message_def)
    show ?thesis
    proof (cases "requested_calls a = []")
      case True
      with assms cm Inr have "s' = ?s2"
        by (simp add: third_assistant_call_def Let_def)
      with s2 show ?thesis by simp
    next
      case False
      obtain d s3 where dp: "dispatch E a ?s2 = (d, s3)"
        by (cases "dispatch E a ?s2")
      note ds = dispatch_state [OF dp]
      show ?thesis
      proof (cases d)
        case (Some e)
        with assms cm Inr False dp have "s' = s3"
          by (simp add: third_assistant_call_def Let_def and_then_def)
        with ds s2 show ?thesis
          by (auto dest: append_prefixD)
      next
        case None
        obtain y s4 where fm: "call_model E s3 = (y, s4)"
          by (cases "call_model E s3")
        from assms cm Inr False dp None fm have "s' = s4"
          by (cases y) (simp_all add: third_assistant_call_def Let_def and_then_def)
        moreover note call_model_state [OF fm]
        moreover from dispatch_replies [OF dp [unfolded None]] obtain replies where
          "messages s3 = messages ?s2 @ replies"
          "tool_replies (registered_calls (available_functions E) a) replies"
          by blast
        moreover have "role a = Assistant"
          using cm Inr call_model_role by blast
        ultimately show ?thesis
          using ds s2 by auto
      qed
    qed
  qed
qed


subsection \<open>The whole session\<close>

lemma session_shape:
  assumes run: "get_stock_info E w = (r, s)"
  shows "sorted_wrt prefix (model_calls s @ [messages s]) \<and>
         length (model_calls s) \<le> 4 \<and>
         (1 < length (model_calls s) \<longrightarrow>
            answered_round E (model_calls s ! 0) (model_calls s ! 1)) \<and>
         (3 < length (model_calls s) \<longrightarrow>
            answered_round E (model_calls s ! 2) (model_calls s ! 3))"
proof -
  let ?init = "\<lparr>messages = [], model_calls = [], stdout = [], world = w\<rparr>"
  obtain x sa where ask: "ask E ''Enter the stock or company name you want to search for: ''
      ?init = (x, sa)"
    by (cases "ask E ''Enter the stock or company name you want to search for: '' ?init")
  from ask_state [OF ask] have sa: "messages sa = []" "model_calls sa = []"
    by simp_all
  show ?thesis
  proof (cases x)
    case (Inl e)
    with run ask have "s = sa"
      by (simp add: get_stock_info_def)
    with sa show ?thesis by simp
  next
    case (Inr q)
    let ?m0 = "initial_messages q"
    let ?s0 = "sa\<lparr>messages := ?m0\<rparr>"
    have s0: "messages ?s0 = ?m0" "model_calls ?s0 = []"
      using sa by simp_all
    from run ask Inr have run0:
      "and_then (first_assistant_call E)
         (and_then (second_assistant_call E) (third_assistant_call E)) ?s0 = (r, s)"
      by (simp add: get_stock_info_def)
    obtain r1 s1 where first: "first_assistant_call E ?s0 = (r1, s1)"
      by (cases "first_assistant_call E ?s0")
    from first_assistant_call_effect(1,2) [OF first] s0
    have c1: "model_calls s1 = [?m0]" and p01: "prefix ?m0 (messages s1)"
      by simp_all
    show ?thesis
    proof (cases r1)
      case (Some e)
      with run0 first have "s = s1"
        by (simp add: and_then_def)
      with c1 p01 show ?thesis by simp
    next
      case None
      from first_assistant_call_effect(3) [OF first None] s0
      have a1: "answered_round E ?m0 (messages s1)"
        by (simp add: answered_round_def)
      from run0 first None have run1:
        "and_then (second_assistant_call E) (third_assistant_call E) s1 = (r, s)"
        by (simp add: and_then_def)
      obtain r2 s2 where second: "second_assistant_call E s1 = (r2, s2)"
        by (cases "second_assistant_call E s1")
      from second_assistant_call_effect [OF second] c1
      have c2: "model_calls s2 = [?m0, messages s1]" and p12: "prefix (messages s1) (messages s2)"
        by simp_all
      from p01 p12 have p02: "prefix ?m0 (messages s2)"
        by (rule prefix_order.trans)
      show ?thesis
      proof (cases r2)
        case (Some e)
        with run1 second have "s = s2"
          by (simp add: and_then_def)
        with c2 p01 p12 p02 a1 show ?thesis by simp
      next
        case None
        with run1 second have third: "third_assistant_call E s2 = (r, s)"
          by (simp add: and_then_def)
        from third_assistant_call_effect [OF third]
        consider (plain) "model_calls s = model_calls s2 @ [messages s2]"
            "prefix (messages s2) (messages s)"
          | (tools) "model_calls s = model_calls s2 @ [messages s2, messages s]"
            "answered_round E (messages s2) (messages s)"
          by (auto simp: answered_round_def)
        then show ?thesis
        proof cases
          case plain
          from p02 plain(2) have "prefix ?m0 (messages s)"
            by (rule prefix_order.trans)
          moreover from p12 plain(2) have "prefix (messages s1) (messages s)"
            by (rule prefix_order.trans)
          ultimately show ?thesis
            using plain c2 p01 p12 p02 a1 by simp
        next
          case tools
          then have p23: "prefix (messages s2) (messages s)"
            by (auto simp: answered_round_def)
          from p02 p23 have "prefix ?m0 (messages s)"
            by (rule prefix_order.trans)
          moreover from p12 p23 have "prefix (messages s1) (messages s)"
            by (rule prefix_order.trans)
          ultimately show ?thesis
            using tools p23 c2 p01 p12 p02 a1 by simp
        qed
      qed
    qed
  qed
qed

subsection \<open>Two sessions, evaluated\<close>

lemmas session_defs =
  get_stock_info_def ask_def and_then_def first_assistant_call_def second_assistant_call_def
  third_assistant_call_def call_model_def get_model_response_def process_stream_def
  stream_step_def bind_err_def dispatch_def process_tool_calls_def requested_calls_def
  available_functions_def call_with_kwargs_def bind_keyword_def search_stock_symbol_def
  search_results_def get_stock_price_def quote_results_def append_message_def Let_def
  example_env_def example_json_loads_def text_chunk_def calls_chunk_def search_call_def
  price_call_def weather_call_def

lemma length_initial_messages [simp]: "length (initial_messages q) = 2"
  by (simp add: initial_messages_def)

lemma unanswered_session_calls:
  "model_calls (snd (get_stock_info unanswered_env 0)) =
     [initial_messages ''Apple'',
      initial_messages ''Apple'' @
        [assistant_requests [search_call ''call_a'', weather_call ''call_x''],
         tool_message ''call_a'' ''[]''],
      initial_messages ''Apple'' @
        [assistant_requests [search_call ''call_a'', weather_call ''call_x''],
         tool_message ''call_a'' ''[]'',
         assistant_requests [search_call ''call_c''],
         user_message ''I choose option 1.'']]"
  by (simp add: session_defs unanswered_env_def unanswered_chat_def assistant_requests_def
      tool_message_def)

lemma unanswered_session_outcome: "fst (get_stock_info unanswered_env 0) = None"
  by (simp add: session_defs unanswered_env_def unanswered_chat_def)

text \<open>
  C1, as the specification states it, fails. The session of \<open>unanswered_env\<close> ends
  without an exception. Its second model call is issued with no tool-role message for
  the tool call \<open>call_x\<close> of the first response, whose function is not registered; its
  third model call is issued with no tool-role message for \<open>call_c\<close>, the tool call of
  the second-round response, which the flow does not pass to the dispatcher.
\<close>

theorem unanswered_requests_counterexample:
  "fst (get_stock_info unanswered_env 0) = None \<and>
   answers_to ''call_x'' (model_calls (snd (get_stock_info unanswered_env 0)) ! 1) = [] \<and>
   answers_to ''call_c'' (model_calls (snd (get_stock_info unanswered_env 0)) ! 2) = [] \<and>
   \<not> all_answered (model_calls (snd (get_stock_info unanswered_env 0)) ! 1) \<and>
   \<not> all_answered (model_calls (snd (get_stock_info unanswered_env 0)) ! 2)"
  by (simp add: unanswered_session_outcome unanswered_session_calls answers_to_def
      all_answered_def initial_messages_def system_message_def user_message_def
      assistant_requests_def tool_message_def requested_calls_def search_call_def
      weather_call_def)

lemma two_calls_session_calls:
  \<open>model_calls (snd (get_stock_info two_calls_env 0)) =
     [initial_messages ''Apple'',
      initial_messages ''Apple'' @
        [assistant_requests [search_call ''call_a'', price_call ''call_b''],
         tool_message ''call_a'' ''[]'',
         tool_message ''call_b'' ''{"error": "No price data available"}''],
      initial_messages ''Apple'' @
        [assistant_requests [search_call ''call_a'', price_call ''call_b''],
         tool_message ''call_a'' ''[]'',
         tool_message ''call_b'' ''{"error": "No price data available"}'',
         \<lparr>role = Assistant, content = ''1. AAPL Apple Inc'', tool_calls = Some [],
          tool_call_id = None\<rparr>,
         user_message ''I choose option 1.''],
      initial_messages ''Apple'' @
        [assistant_requests [search_call ''call_a'', price_call ''call_b''],
         tool_message ''call_a'' ''[]'',
         tool_message ''call_b'' ''{"error": "No price data available"}'',
         \<lparr>role = Assistant, content = ''1. AAPL Apple Inc'', tool_calls = Some [],
          tool_call_id = None\<rparr>,
         user_message ''I choose option 1.'',
         assistant_requests [price_call ''call_c''],
         tool_message ''call_c'' ''{"error": "No price data available"}'']]\<close>
  by (simp add: session_defs two_calls_env_def two_calls_chat_def assistant_requests_def
      tool_message_def dumps_error_marker dumps_empty_list del: json_dumps.simps)

lemma two_calls_session_messages:
  "messages (snd (get_stock_info two_calls_env 0)) =
     model_calls (snd (get_stock_info two_calls_env 0)) ! 3"
  unfolding two_calls_session_calls
  by (simp add: session_defs two_calls_env_def two_calls_chat_def assistant_requests_def
      tool_message_def dumps_error_marker dumps_empty_list del: json_dumps.simps)

text \<open>
  C8. The conversation list only grows. The dispatcher returns a list of which the
  list it was given is a prefix, also when it raises; a model call, with its stream
  accumulation, and a prompt leave the list as it is; each of the three assistant
  calls of the orchestrator ends with a list that extends the one it started with;
  and in a whole session every list with which the model was called is a prefix of
  every later one and of the final list.
\<close>

theorem messages_append_only:
  fixes E :: "'w env"
  shows "prefix ms (fst (snd (process_tool_calls E response ms registry w))) \<and>
         messages (snd (call_model E s)) = messages s \<and>
         messages (snd (ask E prompt s)) = messages s \<and>
         prefix (messages s) (messages (snd (dispatch E response s))) \<and>
         prefix (messages s) (messages (snd (first_assistant_call E s))) \<and>
         prefix (messages s) (messages (snd (second_assistant_call E s))) \<and>
         prefix (messages s) (messages (snd (third_assistant_call E s))) \<and>
         sorted_wrt prefix (snapshots (snd (get_stock_info E w)))"
proof -
  have "prefix ms (fst (snd (process_tool_calls E response ms registry w)))"
    by (cases "process_tool_calls E response ms registry w")
       (auto simp: process_tool_calls_def dest: tool_calls_loop_prefix)
  moreover have "messages (snd (call_model E s)) = messages s"
    by (cases "call_model E s") (simp add: call_model_state)
  moreover have "messages (snd (ask E prompt s)) = messages s"
    by (cases "ask E prompt s") (simp add: ask_state)
  moreover have "prefix (messages s) (messages (snd (dispatch E response s)))"
    by (cases "dispatch E response s") (simp add: dispatch_state)
  moreover have "prefix (messages s) (messages (snd (first_assistant_call E s)))"
    by (cases "first_assistant_call E s") (simp add: first_assistant_call_effect(2))
  moreover have "prefix (messages s) (messages (snd (second_assistant_call E s)))"
    by (cases "second_assistant_call E s") (simp add: second_assistant_call_effect(2))
  moreover have "prefix (messages s) (messages (snd (third_assistant_call E s)))"
    using third_assistant_call_effect [of E s]
    by (cases "third_assistant_call E s") auto
  moreover have "sorted_wrt prefix (snapshots (snd (get_stock_info E w)))"
    using session_shape [of E w]
    by (cases "get_stock_info E w") (simp add: snapshots_def)
  ultimately show ?thesis by blast
qed

text \<open>The session with two tool calls at once: the lists at the four model calls
  and at the end have 2, 5, 7, 9 and 9 messages.\<close>

theorem messages_append_only_witness:
  "map length (snapshots (snd (get_stock_info two_calls_env 0))) = [2, 5, 7, 9, 9] \<and>
   sorted_wrt prefix (snapshots (snd (get_stock_info two_calls_env 0)))"
proof -
  have "map length (snapshots (snd (get_stock_info two_calls_env 0))) = [2, 5, 7, 9, 9]"
    by (simp add: snapshots_def two_calls_session_messages two_calls_session_calls)
  moreover note messages_append_only [where E = two_calls_env and w = 0,
      THEN conjunct2, THEN conjunct2, THEN conjunct2, THEN conjunct2, THEN conjunct2,
      THEN conjunct2, THEN conjunct2]
  ultimately show ?thesis by (rule conjI)
qed

text \<open>
  C1, as the code has it. In every session, whatever its outcome, at most four model
  calls are issued. The second one, when it is issued, is issued with the list of the
  first call, then the first-round assistant message, then one tool-role message for
  each tool call of that message whose function name is registered, in the order of
  the tool calls and with their ids. The fourth one, when it is issued, is issued in
  the same way with the list of the third call, the third-round assistant message and
  the answers to its registered tool calls.
\<close>

theorem dispatched_calls_answered:
  assumes "get_stock_info E w = (r, s)"
  shows "length (model_calls s) \<le> 4 \<and>
         (1 < length (model_calls s) \<longrightarrow>
            answered_round E (model_calls s ! 0) (model_calls s ! 1)) \<and>
         (3 < length (model_calls s) \<longrightarrow>
            answered_round E (model_calls s ! 2) (model_calls s ! 3))"
  using session_shape [OF assms] by simp

text \<open>The session in which the first response requests two tool calls at once.\<close>

theorem dispatched_calls_answered_witness:
  \<open>length (model_calls (snd (get_stock_info two_calls_env 0))) = 4 \<and>
   model_calls (snd (get_stock_info two_calls_env 0)) ! 1 =
     initial_messages ''Apple'' @
       [assistant_requests [search_call ''call_a'', price_call ''call_b''],
        tool_message ''call_a'' ''[]'',
        tool_message ''call_b'' ''{"error": "No price data available"}''] \<and>
   answered_round two_calls_env
     (model_calls (snd (get_stock_info two_calls_env 0)) ! 0)
     (model_calls (snd (get_stock_info two_calls_env 0)) ! 1) \<and>
   answered_round two_calls_env
     (model_calls (snd (get_stock_info two_calls_env 0)) ! 2)
     (model_calls (snd (get_stock_info two_calls_env 0)) ! 3)\<close>
proof -
  let ?S = "get_stock_info two_calls_env 0"
  have run: "?S = (fst ?S, snd ?S)"
    by simp
  have len: "length (model_calls (snd ?S)) = 4"
    by (simp add: two_calls_session_calls)
  have snd_call: \<open>model_calls (snd ?S) ! 1 =
     initial_messages ''Apple'' @
       [assistant_requests [search_call ''call_a'', price_call ''call_b''],
        tool_message ''call_a'' ''[]'',
        tool_message ''call_b'' ''{"error": "No price data available"}'']\<close>
    by (simp add: two_calls_session_calls)
  from dispatched_calls_answered [OF run] len
  have "answered_round two_calls_env (model_calls (snd ?S) ! 0) (model_calls (snd ?S) ! 1)"
    and "answered_round two_calls_env (model_calls (snd ?S) ! 2) (model_calls (snd ?S) ! 3)"
    by simp_all
  with len snd_call show ?thesis
    by (intro conjI)
qed

end
